theory Spec2Isabelle
  imports Main "HOL-Library.Word"
begin

section \<open>The etcd client generator of pkg/k3s/etcd_client_generator.go\<close>

text \<open>
  The generator resolves, among an ordered list of candidate nodes, an etcd client that is
  connected through the node's etcd-proxy pod: either to the first node that answers
  (\<open>forFirstAvailableNode\<close>) or to the node hosting the etcd leader (\<open>forLeader\<close>).
  The Go methods mutate the generator (the cached pod map) and talk to three collaborators:
  the Kubernetes clientset (construction and pod listing), the injected client factory
  \<open>createClient\<close>, and the etcd client (\<open>Members\<close>, \<open>Close\<close>). The model threads an explicit
  state through every function: the cached map and the trace of collaborator calls made so
  far. Each collaborator is a function of the trace that precedes the call, so its answers
  may change from one call to the next.
\<close>

subsection \<open>Errors\<close>

text \<open>
  Go error values. \<open>ErrEtcdNodeConnection\<close> is the package-level sentinel
  \<open>errEtcdNodeConnection\<close>; \<open>ErrNew\<close> is \<open>errors.New\<close>; \<open>ErrWrap\<close> is the non-nil result of
  \<open>errors.Wrap\<close>; \<open>ErrAggregate\<close> is the non-nil result of \<open>kerrors.NewAggregate\<close>.
  The two \<open>errors.Errorf\<close> calls of \<open>getLeaderClient\<close> keep the arguments of their format
  string: \<open>ErrLeaderWithoutNode id name\<close> is "etcd leader is reported as %x with node name
  %q, but we couldn't find a corresponding Node in the cluster" and
  \<open>ErrLeaderWithoutMember id\<close> is "etcd leader is reported as %x, but we couldn't find any
  matching member".
\<close>

datatype err =
    ErrEtcdNodeConnection
  | ErrNew string
  | ErrWrap err string
  | ErrAggregate "err list"
  | ErrLeaderWithoutNode "64 word" string
  | ErrLeaderWithoutMember "64 word"

text \<open>
  \<open>errors.Is(err, errEtcdNodeConnection)\<close>: the sentinel itself, or a wrapped error whose
  cause matches (\<open>Unwrap\<close>), or an aggregate one of whose errors matches (the \<open>Is\<close> method of
  the aggregate visits every member).
\<close>

fun errors_Is_errEtcdNodeConnection :: "err \<Rightarrow> bool" where
  "errors_Is_errEtcdNodeConnection ErrEtcdNodeConnection = True"
| "errors_Is_errEtcdNodeConnection (ErrNew msg) = False"
| "errors_Is_errEtcdNodeConnection (ErrWrap cause msg) = errors_Is_errEtcdNodeConnection cause"
| "errors_Is_errEtcdNodeConnection (ErrAggregate es) = list_ex errors_Is_errEtcdNodeConnection es"
| "errors_Is_errEtcdNodeConnection (ErrLeaderWithoutNode i n) = False"
| "errors_Is_errEtcdNodeConnection (ErrLeaderWithoutMember i) = False"

text \<open>\<open>kerrors.NewAggregate\<close> returns nil for an empty list; \<open>errors.Wrap\<close> returns nil for nil.\<close>

definition NewAggregate :: "err list \<Rightarrow> err option" where
  "NewAggregate errlist = (if errlist = [] then None else Some (ErrAggregate errlist))"

fun errors_Wrap :: "err option \<Rightarrow> string \<Rightarrow> err option" where
  "errors_Wrap None msg = None"
| "errors_Wrap (Some e) msg = Some (ErrWrap e msg)"

text \<open>
  What a Go function of type \<open>(*etcd.Client, error)\<close> gives back: a client with a nil
  error, a nil client with an error, nil with nil (what the guards on the empty list are there
  to avoid), or a nil-pointer panic.
\<close>

datatype 'a result = Ok 'a | Err err | NilNil | Panic

text \<open>\<open>return nil, e\<close> where the expression \<open>e\<close> may evaluate to nil.\<close>

fun return_err :: "err option \<Rightarrow> 'a result" where
  "return_err None = NilNil"
| "return_err (Some e) = Err e"

subsection \<open>Data\<close>

record pod =
  pod_NodeName :: string
  pod_Name :: string

record member =
  member_ID :: "64 word"
  member_Name :: string

text \<open>
  An open \<open>*etcd.Client\<close>. \<open>handle\<close> identifies the connection (the position of its creation
  in the trace), \<open>Endpoint\<close> is the pod name the factory was given, \<open>LeaderID\<close> is the field
  the client carries from its creation.
\<close>

record client =
  handle :: nat
  Endpoint :: string
  LeaderID :: "64 word"

datatype event =
    EvNewForConfig
  | EvList
  | EvCreateClient string "nat option"
  | EvMembers nat
  | EvClose nat

text \<open>
  The collaborators. \<open>NewForConfig\<close> is \<open>kubernetes.NewForConfig\<close> (\<open>Some e\<close> when it fails),
  \<open>ListPods\<close> is the listing of the pods labelled \<open>app=etcd-proxy\<close> in \<open>kube-system\<close>,
  \<open>createClient\<close> is the injected factory (it answers with the leader id the new client
  holds), \<open>Members\<close> is \<open>client.Members\<close>, and \<open>NodeNameFromMember\<close> is the helper of
  \<open>pkg/etcd/util\<close>, which is taken as a parameter.
\<close>

record env =
  NewForConfig :: "event list \<Rightarrow> err option"
  ListPods :: "event list \<Rightarrow> err + pod list"
  createClient :: "event list \<Rightarrow> string \<Rightarrow> err + 64 word"
  Members :: "event list \<Rightarrow> client \<Rightarrow> err + member list"
  NodeNameFromMember :: "member \<Rightarrow> string"

text \<open>The generator's mutable field \<open>etcdPodMap\<close> (\<open>None\<close> is the nil pointer) and the trace.\<close>

record state =
  etcdPodMap :: "(string \<rightharpoonup> string) option"
  trace :: "event list"

definition emit :: "event \<Rightarrow> state \<Rightarrow> state" where
  "emit ev s = s\<lparr>trace := trace s @ [ev]\<rparr>"

subsection \<open>findEtcdProxyPod\<close>

text \<open>The loop \<open>etcdmap[pod.Spec.NodeName] = pod.Name\<close>: a later pod overwrites an earlier one.\<close>

definition buildEtcdMap :: "pod list \<Rightarrow> (string \<rightharpoonup> string)" where
  "buildEtcdMap pods = foldl (\<lambda>m p. m(pod_NodeName p \<mapsto> pod_Name p)) Map.empty pods"

definition lookupPod :: "(string \<rightharpoonup> string) \<Rightarrow> string \<Rightarrow> err + string" where
  "lookupPod m nodeName =
     (case m nodeName of
        None \<Rightarrow> Inl (ErrNew (''unable to find etcd proxy pod for node '' @ nodeName))
      | Some podName \<Rightarrow> Inr podName)"

definition findEtcdProxyPod :: "env \<Rightarrow> state \<Rightarrow> string \<Rightarrow> (err + string) \<times> state" where
  "findEtcdProxyPod E s nodeName =
     (case etcdPodMap s of
        Some m \<Rightarrow> (lookupPod m nodeName, s)
      | None \<Rightarrow>
          (case NewForConfig E (trace s) of
             Some e \<Rightarrow>
               (Inl (ErrWrap e ''unable to create client to target cluster''),
                emit EvNewForConfig s)
           | None \<Rightarrow>
               let s1 = emit EvNewForConfig s in
               (case ListPods E (trace s1) of
                  Inl e \<Rightarrow>
                    (Inl (ErrWrap e ''unable to list etcd-proxy pods in target cluster''),
                     emit EvList s1)
                | Inr pods \<Rightarrow>
                    let s2 = emit EvList s1 in
                    if pods = [] then
                      (Inl (ErrNew ''there isn't any etcd-proxy pods in target cluster''), s2)
                    else
                      let etcdmap = buildEtcdMap pods in
                      (lookupPod etcdmap nodeName, s2\<lparr>etcdPodMap := Some etcdmap\<rparr>))))"

subsection \<open>forFirstAvailableNode\<close>

fun forFirstAvailableNode_loop ::
  "env \<Rightarrow> state \<Rightarrow> string list \<Rightarrow> err list \<Rightarrow> (err list + client) \<times> state" where
  "forFirstAvailableNode_loop E s [] errs = (Inl errs, s)"
| "forFirstAvailableNode_loop E s (name # rest) errs =
     (case findEtcdProxyPod E s name of
        (Inl e, s1) \<Rightarrow> forFirstAvailableNode_loop E s1 rest (errs @ [e])
      | (Inr podName, s1) \<Rightarrow>
          (case createClient E (trace s1) podName of
             Inl e \<Rightarrow>
               forFirstAvailableNode_loop E (emit (EvCreateClient podName None) s1) rest
                 (errs @ [e])
           | Inr leader \<Rightarrow>
               (Inr \<lparr>handle = length (trace s1), Endpoint = podName, LeaderID = leader\<rparr>,
                emit (EvCreateClient podName (Some (length (trace s1)))) s1)))"

definition forFirstAvailableNode ::
  "env \<Rightarrow> state \<Rightarrow> string list \<Rightarrow> client result \<times> state" where
  "forFirstAvailableNode E s nodeNames =
     (if nodeNames = [] then
        (Err (ErrNew
           ''invalid argument: forLeader can't be called with an empty list of nodes''), s)
      else
        (case NewForConfig E (trace s) of
           Some e \<Rightarrow>
             (Err (ErrWrap e ''unable to create client to target cluster''),
              emit EvNewForConfig s)
         | None \<Rightarrow>
             let s1 = emit EvNewForConfig s in
             (case ListPods E (trace s1) of
                Inl e \<Rightarrow>
                  (Err (ErrWrap e ''unable to list etcd-proxy pods in target cluster''),
                   emit EvList s1)
              | Inr pods \<Rightarrow>
                  let s2 = emit EvList s1;
                      etcdmap = buildEtcdMap pods
                  in
                  (case forFirstAvailableNode_loop E s2 nodeNames [] of
                     (Inr cl, s3) \<Rightarrow> (Ok cl, s3)
                   | (Inl errs, s3) \<Rightarrow>
                       (return_err (errors_Wrap (NewAggregate errs)
                          ''could not establish a connection to any etcd node''), s3)))))"

subsection \<open>getLeaderClient and forLeader\<close>

text \<open>
  \<open>defer client.Close()\<close> binds the receiver when the defer statement runs, so the deferred
  call closes the temporary client even after \<open>client\<close> is assigned again; it runs when the
  function returns, after the second dial.
\<close>

definition getLeaderClient ::
  "env \<Rightarrow> state \<Rightarrow> string \<Rightarrow> string set \<Rightarrow> client result \<times> state" where
  "getLeaderClient E s nodeName allNodes =
     (case forFirstAvailableNode E s [nodeName] of
        (Err e, s1) \<Rightarrow> (return_err (NewAggregate [e, ErrEtcdNodeConnection]), s1)
      | (NilNil, s1) \<Rightarrow> (Panic, s1)
      | (Panic, s1) \<Rightarrow> (Panic, s1)
      | (Ok client, s1) \<Rightarrow>
          let deferred = emit (EvClose (handle client));
              s2 = emit (EvMembers (handle client)) s1
          in
          (case Members E (trace s1) client of
             Inl e \<Rightarrow> (return_err (NewAggregate [e, ErrEtcdNodeConnection]), deferred s2)
           | Inr members \<Rightarrow>
               (case find (\<lambda>m. member_ID m = LeaderID client) members of
                  Some leaderMember \<Rightarrow>
                    let nodeName' = NodeNameFromMember E leaderMember in
                    if nodeName' \<notin> allNodes then
                      (Err (ErrLeaderWithoutNode (member_ID leaderMember) nodeName'),
                       deferred s2)
                    else
                      (case forFirstAvailableNode E s2 [nodeName'] of
                         (r, s3) \<Rightarrow> (r, deferred s3))
                | None \<Rightarrow>
                    (Err (ErrLeaderWithoutMember (LeaderID client)), deferred s2))))"

text \<open>
  The loop of \<open>forLeader\<close>: \<open>Inl errs\<close> when the candidates are exhausted, \<open>Inr r\<close> when the
  loop body returns \<open>r\<close>.
\<close>

fun forLeader_loop ::
  "env \<Rightarrow> state \<Rightarrow> string list \<Rightarrow> string set \<Rightarrow> err list \<Rightarrow>
   (err list + client result) \<times> state" where
  "forLeader_loop E s [] nodes errs = (Inl errs, s)"
| "forLeader_loop E s (nodeName # rest) nodes errs =
     (case getLeaderClient E s nodeName nodes of
        (Err e, s1) \<Rightarrow>
          if errors_Is_errEtcdNodeConnection e then
            forLeader_loop E s1 rest nodes (errs @ [e])
          else (Inr (Err e), s1)
      | (r, s1) \<Rightarrow> (Inr r, s1))"

definition forLeader :: "env \<Rightarrow> state \<Rightarrow> string list \<Rightarrow> client result \<times> state" where
  "forLeader E s nodeNames =
     (if nodeNames = [] then
        (Err (ErrNew
           ''invalid argument: forLeader can't be called with an empty list of nodes''), s)
      else
        let nodes = set nodeNames in
        (case forLeader_loop E s nodeNames nodes [] of
           (Inr r, s1) \<Rightarrow> (r, s1)
         | (Inl errs, s1) \<Rightarrow>
             (return_err (errors_Wrap (NewAggregate errs)
                ''could not establish a connection to the etcd leader''), s1)))"

subsection \<open>Reading a trace\<close>

text \<open>The handles of the clients a stretch of the trace opened, and of those it closed.\<close>

fun opened :: "event list \<Rightarrow> nat list" where
  "opened [] = []"
| "opened (EvCreateClient ep (Some h) # evs) = h # opened evs"
| "opened (ev # evs) = opened evs"

fun closed :: "event list \<Rightarrow> nat list" where
  "closed [] = []"
| "closed (EvClose h # evs) = h # closed evs"
| "closed (ev # evs) = closed evs"

text \<open>The handle a result hands to the caller, if any.\<close>

fun returned :: "client result \<Rightarrow> nat set" where
  "returned (Ok cl) = {handle cl}"
| "returned r = {}"

text \<open>Calls on the etcd side: the client factory, the membership query, the close.\<close>

fun is_client_call :: "event \<Rightarrow> bool" where
  "is_client_call EvNewForConfig = False"
| "is_client_call EvList = False"
| "is_client_call ev = True"

text \<open>The events a computation from \<open>s\<close> to \<open>s'\<close> added to the trace.\<close>

definition new_events :: "state \<Rightarrow> state \<Rightarrow> event list" where
  "new_events s s' = drop (length (trace s)) (trace s')"

text \<open>
  The bookkeeping of handles over a stretch \<open>evs\<close> of the trace that starts at position \<open>k\<close>:
  every handle opened in it lies within the stretch and is opened once, no handle is closed
  twice, and the closed handles are the opened ones except those in \<open>R\<close>, which are open.
\<close>

definition accounted :: "nat \<Rightarrow> event list \<Rightarrow> nat set \<Rightarrow> bool" where
  "accounted k evs R \<longleftrightarrow>
     (\<forall>h \<in> set (opened evs). k \<le> h \<and> h < k + length evs) \<and>
     distinct (opened evs) \<and> distinct (closed evs) \<and>
     set (closed evs) = set (opened evs) - R \<and> R \<subseteq> set (opened evs)"

subsection \<open>A concrete cluster\<close>

text \<open>
  Three candidate nodes A, B and C. Proxy pods run on B and C only; every dial succeeds and
  sees leader id 3; the membership query through B's pod fails, the one through C's pod
  lists B with id 2 and C with id 3.
\<close>

definition E0 :: env where
  "E0 = \<lparr>NewForConfig = (\<lambda>h. None),
          ListPods = (\<lambda>h. Inr [\<lparr>pod_NodeName = ''B'', pod_Name = ''proxy-B''\<rparr>,
                                \<lparr>pod_NodeName = ''C'', pod_Name = ''proxy-C''\<rparr>]),
          createClient = (\<lambda>h ep. Inr 3),
          Members = (\<lambda>h cl. if Endpoint cl = ''proxy-B''
                             then Inl (ErrNew ''context deadline exceeded'')
                             else Inr [\<lparr>member_ID = 2, member_Name = ''B''\<rparr>,
                                       \<lparr>member_ID = 3, member_Name = ''C''\<rparr>]),
          NodeNameFromMember = member_Name\<rparr>"

text \<open>A fresh generator, and one whose pod map is already built.\<close>

definition s0 :: state where
  "s0 = \<lparr>etcdPodMap = None, trace = []\<rparr>"

definition m0 :: "string \<rightharpoonup> string" where
  "m0 = [''B'' \<mapsto> ''proxy-B'', ''C'' \<mapsto> ''proxy-C'']"

definition s1 :: state where
  "s1 = \<lparr>etcdPodMap = Some m0, trace = []\<rparr>"

subsection \<open>Collaborators that do not know the sentinel\<close>

text \<open>
  \<open>errEtcdNodeConnection\<close> is private to the package, so the errors of the clientset and of
  the production client factory cannot contain it. The predicate says so of an environment.
\<close>

definition collaborators_unmarked :: "env \<Rightarrow> bool" where
  "collaborators_unmarked E \<longleftrightarrow>
     (\<forall>h e. NewForConfig E h = Some e \<longrightarrow> \<not> errors_Is_errEtcdNodeConnection e) \<and>
     (\<forall>h e. ListPods E h = Inl e \<longrightarrow> \<not> errors_Is_errEtcdNodeConnection e) \<and>
     (\<forall>h ep e. createClient E h ep = Inl e \<longrightarrow> \<not> errors_Is_errEtcdNodeConnection e)"

text \<open>
  Two variants of the concrete cluster: in \<open>E1\<close> every membership query names node A, which
  has no proxy pod, as the leader's node; in \<open>E2\<close> every client reports leader id 7, which no
  member has.
\<close>

definition E1 :: env where
  "E1 = E0\<lparr>Members := (\<lambda>h cl. Inr [\<lparr>member_ID = 3, member_Name = ''A''\<rparr>])\<rparr>"

definition E2 :: env where
  "E2 = E0\<lparr>createClient := (\<lambda>h ep. Inr 7)\<rparr>"

text \<open>
  \<open>E3\<close> is the concrete cluster without any proxy pod. In \<open>E4\<close> the listing is empty as long
  as the trace has fewer than four events, and lists the pods of B and C afterwards.
\<close>

definition E3 :: env where
  "E3 = E0\<lparr>ListPods := (\<lambda>h. Inr [])\<rparr>"

definition E4 :: env where
  "E4 = E0\<lparr>ListPods := (\<lambda>h. if length h < 4 then Inr []
                             else Inr [\<lparr>pod_NodeName = ''B'', pod_Name = ''proxy-B''\<rparr>,
                                       \<lparr>pod_NodeName = ''C'', pod_Name = ''proxy-C''\<rparr>])\<rparr>"

text \<open>
  In \<open>E5\<close> the clientset cannot be constructed; in \<open>E6\<close> every listing fails.
\<close>

definition E5 :: env where
  "E5 = E0\<lparr>NewForConfig := (\<lambda>h. Some (ErrNew ''invalid configuration''))\<rparr>"

definition E6 :: env where
  "E6 = E0\<lparr>ListPods := (\<lambda>h. Inl (ErrNew ''connection refused''))\<rparr>"

text \<open>
  One pass of the loop body of \<open>forFirstAvailableNode\<close> (lines 128-137) that does not
  return: from state \<open>s\<close> the candidate fails with \<open>e\<close>, either in \<open>findEtcdProxyPod\<close> or in
  the client factory, and leaves state \<open>s'\<close>.
\<close>

definition candidate_fails :: "env \<Rightarrow> state \<Rightarrow> string \<Rightarrow> err \<Rightarrow> state \<Rightarrow> bool" where
  "candidate_fails E s name e s' \<longleftrightarrow>
     findEtcdProxyPod E s name = (Inl e, s') \<or>
     (\<exists>podName t. findEtcdProxyPod E s name = (Inr podName, t) \<and>
        createClient E (trace t) podName = Inl e \<and>
        s' = emit (EvCreateClient podName None) t)"

text \<open>In \<open>E7\<close> the dial to B's pod is refused.\<close>

definition E7 :: env where
  "E7 = E0\<lparr>createClient := (\<lambda>h ep. if ep = ''proxy-B'' then Inl (ErrNew ''connection refused'')
                                    else Inr 3)\<rparr>"

section \<open>Basic facts\<close>

lemma opened_append [simp]: "opened (xs @ ys) = opened xs @ opened ys"
  by (induction xs rule: opened.induct) auto

lemma closed_append [simp]: "closed (xs @ ys) = closed xs @ closed ys"
  by (induction xs rule: closed.induct) auto

lemma trace_emit [simp]: "trace (emit ev s) = trace s @ [ev]"
  by (simp add: emit_def)

lemma etcdPodMap_emit [simp]: "etcdPodMap (emit ev s) = etcdPodMap s"
  by (simp add: emit_def)

section \<open>The cached pod map\<close>











section \<open>The empty candidate list\<close>

text \<open>
  C6. For the empty candidate list both \<open>forFirstAvailableNode\<close> and \<open>forLeader\<close> return
  the invalid-argument error at once and leave the state as it was: the trace gains no
  event (no clientset construction, no listing, no dial, no membership query) and the
  cached map is untouched.
\<close>

theorem C6_empty_list_invalid_argument:
  "forFirstAvailableNode E s [] =
     (Err (ErrNew ''invalid argument: forLeader can't be called with an empty list of nodes''), s)
   \<and> forLeader E s [] =
     (Err (ErrNew ''invalid argument: forLeader can't be called with an empty list of nodes''), s)"
  by (simp add: forFirstAvailableNode_def forLeader_def)

section \<open>The candidate loops\<close>

lemma loop_append:
  "forFirstAvailableNode_loop E s (xs @ ys) errs =
     (case forFirstAvailableNode_loop E s xs errs of
        (Inl errs', s') \<Rightarrow> forFirstAvailableNode_loop E s' ys errs'
      | (Inr cl, s') \<Rightarrow> (Inr cl, s'))"
  by (induction xs arbitrary: s errs) (simp_all split: prod.splits sum.splits)

lemma loop_recorded:
  "forFirstAvailableNode_loop E s ns errs = (Inl errs', s') \<Longrightarrow>
   \<exists>es. errs' = errs @ es \<and> length es = length ns"
proof (induction ns arbitrary: s errs)
  case Nil
  then show ?case by simp
next
  case (Cons n ns)
  from Cons.prems obtain e t where
    rec: "forFirstAvailableNode_loop E t ns (errs @ [e]) = (Inl errs', s')"
    by (auto split: prod.splits sum.splits)
  from Cons.IH [OF rec] obtain es where "errs' = (errs @ [e]) @ es" "length es = length ns"
    by blast
  then have "errs' = errs @ (e # es) \<and> length (e # es) = length (n # ns)" by simp
  then show ?case by blast
qed

lemma loop_success_split:
  "forFirstAvailableNode_loop E s ns errs = (Inr cl, s') \<Longrightarrow>
   \<exists>pre n post es t1 t2 podName leader.
     ns = pre @ n # post \<and>
     forFirstAvailableNode_loop E s pre errs = (Inl (errs @ es), t1) \<and>
     length es = length pre \<and>
     findEtcdProxyPod E t1 n = (Inr podName, t2) \<and>
     createClient E (trace t2) podName = Inr leader \<and>
     cl = \<lparr>handle = length (trace t2), Endpoint = podName, LeaderID = leader\<rparr> \<and>
     s' = emit (EvCreateClient podName (Some (length (trace t2)))) t2"
proof (induction ns arbitrary: s errs)
  case Nil
  then show ?case by simp
next
  case (Cons a ns)
  obtain r t where f: "findEtcdProxyPod E s a = (r, t)"
    by (cases "findEtcdProxyPod E s a")
  consider (hit) podName leader where "r = Inr podName" "createClient E (trace t) podName = Inr leader"
    | (fail) e u where "forFirstAvailableNode_loop E s [a] errs = (Inl (errs @ [e]), u)"
        "forFirstAvailableNode_loop E u ns (errs @ [e]) = (Inr cl, s')"
    using Cons.prems f by (auto split: sum.splits)
  then show ?case
  proof cases
    case hit
    with Cons.prems f have
      "a # ns = [] @ a # ns \<and>
       forFirstAvailableNode_loop E s [] errs = (Inl (errs @ []), s) \<and>
       length ([]::err list) = length ([]::string list) \<and>
       findEtcdProxyPod E s a = (Inr podName, t) \<and>
       createClient E (trace t) podName = Inr leader \<and>
       cl = \<lparr>handle = length (trace t), Endpoint = podName, LeaderID = leader\<rparr> \<and>
       s' = emit (EvCreateClient podName (Some (length (trace t)))) t"
      by auto
    then show ?thesis by blast
  next
    case fail
    from Cons.IH [OF fail(2)] obtain pre n post es t1 t2 podName leader where
      sp: "ns = pre @ n # post"
        "forFirstAvailableNode_loop E u pre (errs @ [e]) = (Inl ((errs @ [e]) @ es), t1)"
        "length es = length pre"
        "findEtcdProxyPod E t1 n = (Inr podName, t2)"
        "createClient E (trace t2) podName = Inr leader"
        "cl = \<lparr>handle = length (trace t2), Endpoint = podName, LeaderID = leader\<rparr>"
        "s' = emit (EvCreateClient podName (Some (length (trace t2)))) t2"
      by blast
    have "forFirstAvailableNode_loop E s (a # pre) errs = (Inl (errs @ (e # es)), t1)"
      using loop_append [of E s "[a]" pre errs] fail(1) sp(2) by simp
    with sp have
      "a # ns = (a # pre) @ n # post \<and>
       forFirstAvailableNode_loop E s (a # pre) errs = (Inl (errs @ (e # es)), t1) \<and>
       length (e # es) = length (a # pre) \<and>
       findEtcdProxyPod E t1 n = (Inr podName, t2) \<and>
       createClient E (trace t2) podName = Inr leader \<and>
       cl = \<lparr>handle = length (trace t2), Endpoint = podName, LeaderID = leader\<rparr> \<and>
       s' = emit (EvCreateClient podName (Some (length (trace t2)))) t2"
      by simp
    then show ?thesis by blast
  qed
qed

lemma loop_success_join:
  "forFirstAvailableNode_loop E s pre errs = (Inl errs', t1) \<Longrightarrow>
   findEtcdProxyPod E t1 n = (Inr podName, t2) \<Longrightarrow>
   createClient E (trace t2) podName = Inr leader \<Longrightarrow>
   forFirstAvailableNode_loop E s (pre @ n # post) errs =
     (Inr \<lparr>handle = length (trace t2), Endpoint = podName, LeaderID = leader\<rparr>,
      emit (EvCreateClient podName (Some (length (trace t2)))) t2)"
  by (simp add: loop_append)


lemma fl_loop_append:
  "forLeader_loop E s (xs @ ys) nodes errs =
     (case forLeader_loop E s xs nodes errs of
        (Inl errs', s') \<Rightarrow> forLeader_loop E s' ys nodes errs'
      | (Inr r, s') \<Rightarrow> (Inr r, s'))"
  by (induction xs arbitrary: s errs) (simp_all split: prod.splits result.splits)

lemma fl_loop_recorded:
  "forLeader_loop E s ns nodes errs = (Inl errs', s') \<Longrightarrow>
   \<exists>es. errs' = errs @ es \<and> length es = length ns \<and>
        list_all errors_Is_errEtcdNodeConnection es"
proof (induction ns arbitrary: s errs)
  case Nil
  then show ?case by simp
next
  case (Cons n ns)
  from Cons.prems obtain e t where
    retry: "errors_Is_errEtcdNodeConnection e"
    and rec: "forLeader_loop E t ns nodes (errs @ [e]) = (Inl errs', s')"
    by (auto split: prod.splits result.splits if_splits)
  from Cons.IH [OF rec] obtain es where
    "errs' = (errs @ [e]) @ es" "length es = length ns"
    "list_all errors_Is_errEtcdNodeConnection es"
    by blast
  with retry have "errs' = errs @ (e # es) \<and> length (e # es) = length (n # ns) \<and>
      list_all errors_Is_errEtcdNodeConnection (e # es)"
    by simp
  then show ?case by blast
qed

text \<open>
  C3. \<open>forFirstAvailableNode\<close> returns a client exactly when its clientset construction
  and listing (lines 110-118) succeed and the candidate list splits as \<open>pre @ n # post\<close>
  where the loop ran through every candidate of \<open>pre\<close> in order without success, recording
  one error for each of them (\<open>es\<close>, of the length of \<open>pre\<close>) and raising none, and the
  attempt on \<open>n\<close> in the state the loop had then reached resolved the pod and created the
  client. The client returned is the one created for \<open>n\<close>, and the final state is the state
  right after that creation: nothing is said of \<open>post\<close>, so whatever follows the first
  success changes neither the result nor the trace.
\<close>

theorem C3_first_available_in_order:
  "forFirstAvailableNode E s ns = (Ok cl, s') \<longleftrightarrow>
   (\<exists>pods pre n post es t1 t2 podName leader.
      NewForConfig E (trace s) = None \<and>
      ListPods E (trace s @ [EvNewForConfig]) = Inr pods \<and>
      ns = pre @ n # post \<and>
      forFirstAvailableNode_loop E (emit EvList (emit EvNewForConfig s)) pre [] = (Inl es, t1) \<and>
      length es = length pre \<and>
      findEtcdProxyPod E t1 n = (Inr podName, t2) \<and>
      createClient E (trace t2) podName = Inr leader \<and>
      cl = \<lparr>handle = length (trace t2), Endpoint = podName, LeaderID = leader\<rparr> \<and>
      s' = emit (EvCreateClient podName (Some (length (trace t2)))) t2)"
  (is "?L \<longleftrightarrow> ?R")
proof
  assume L: ?L
  then have ne: "ns \<noteq> []"
    by (auto simp: forFirstAvailableNode_def)
  from L ne have nfc: "NewForConfig E (trace s) = None"
    by (auto simp: forFirstAvailableNode_def split: option.splits)
  from L ne nfc obtain pods where lp: "ListPods E (trace s @ [EvNewForConfig]) = Inr pods"
    by (auto simp: forFirstAvailableNode_def Let_def split: sum.splits)
  from L ne nfc lp have
    lo: "forFirstAvailableNode_loop E (emit EvList (emit EvNewForConfig s)) ns [] = (Inr cl, s')"
    by (auto simp: forFirstAvailableNode_def Let_def NewAggregate_def
        split: sum.splits prod.splits if_splits)
  from loop_success_split [OF lo] nfc lp show ?R
    by (simp del: forFirstAvailableNode_loop.simps)
next
  assume ?R
  then obtain pods pre n post es t1 t2 podName leader where
    r: "NewForConfig E (trace s) = None"
      "ListPods E (trace s @ [EvNewForConfig]) = Inr pods"
      "ns = pre @ n # post"
      "forFirstAvailableNode_loop E (emit EvList (emit EvNewForConfig s)) pre [] = (Inl es, t1)"
      "findEtcdProxyPod E t1 n = (Inr podName, t2)"
      "createClient E (trace t2) podName = Inr leader"
      "cl = \<lparr>handle = length (trace t2), Endpoint = podName, LeaderID = leader\<rparr>"
      "s' = emit (EvCreateClient podName (Some (length (trace t2)))) t2"
    by blast
  have "forFirstAvailableNode_loop E (emit EvList (emit EvNewForConfig s)) ns [] = (Inr cl, s')"
    using loop_success_join [OF r(4) r(5) r(6), of post] r(3,7,8) by simp
  then show ?L
    using r(1,2,3) by (simp add: forFirstAvailableNode_def Let_def)
qed

theorem C3_first_available_in_order_witness:
  "\<exists>pods pre n post es t1 t2 podName leader.
      NewForConfig E0 (trace s0) = None \<and>
      ListPods E0 (trace s0 @ [EvNewForConfig]) = Inr pods \<and>
      [''A'', ''B'', ''C''] = pre @ n # post \<and>
      forFirstAvailableNode_loop E0 (emit EvList (emit EvNewForConfig s0)) pre [] = (Inl es, t1) \<and>
      length es = length pre \<and>
      findEtcdProxyPod E0 t1 n = (Inr podName, t2) \<and>
      createClient E0 (trace t2) podName = Inr leader \<and>
      \<lparr>handle = 4, Endpoint = ''proxy-B'', LeaderID = 3\<rparr> =
        \<lparr>handle = length (trace t2), Endpoint = podName, LeaderID = leader\<rparr> \<and>
      \<lparr>etcdPodMap = Some m0,
       trace = [EvNewForConfig, EvList, EvNewForConfig, EvList,
                EvCreateClient ''proxy-B'' (Some 4)]\<rparr> =
        emit (EvCreateClient podName (Some (length (trace t2)))) t2"
proof -
  have run: "forFirstAvailableNode E0 s0 [''A'', ''B'', ''C''] =
      (Ok \<lparr>handle = 4, Endpoint = ''proxy-B'', LeaderID = 3\<rparr>,
       \<lparr>etcdPodMap = Some m0,
        trace = [EvNewForConfig, EvList, EvNewForConfig, EvList,
                 EvCreateClient ''proxy-B'' (Some 4)]\<rparr>)"
    by (simp add: forFirstAvailableNode_def findEtcdProxyPod_def lookupPod_def buildEtcdMap_def
        E0_def s0_def m0_def emit_def Let_def)
  show ?thesis
    by (rule iffD1 [OF C3_first_available_in_order run])
qed


lemma run_fl_AB:
  "forLeader_loop E0 s0 [''A'', ''B''] (set [''A'', ''B'']) [] =
     (Inl [ErrAggregate
             [ErrWrap (ErrAggregate [ErrNew ''unable to find etcd proxy pod for node A''])
                ''could not establish a connection to any etcd node'',
              ErrEtcdNodeConnection],
           ErrAggregate [ErrNew ''context deadline exceeded'', ErrEtcdNodeConnection]],
      \<lparr>etcdPodMap = Some m0,
       trace = [EvNewForConfig, EvList, EvNewForConfig, EvList, EvNewForConfig, EvList,
                EvCreateClient ''proxy-B'' (Some 6), EvMembers 6, EvClose 6]\<rparr>)"
  by (simp add: getLeaderClient_def forFirstAvailableNode_def findEtcdProxyPod_def lookupPod_def
      buildEtcdMap_def NewAggregate_def E0_def s0_def m0_def emit_def Let_def)

lemma loop_step_fail:
  "candidate_fails E s n e t \<Longrightarrow>
   forFirstAvailableNode_loop E s (n # ns) errs = forFirstAvailableNode_loop E t ns (errs @ [e])"
  by (auto simp: candidate_fails_def)

lemma loop_step_exhausted:
  "forFirstAvailableNode_loop E s (n # ns) errs = (Inl errs', s') \<Longrightarrow>
   \<exists>e t. candidate_fails E s n e t \<and>
         forFirstAvailableNode_loop E t ns (errs @ [e]) = (Inl errs', s')"
  by (auto simp: candidate_fails_def split: prod.splits sum.splits)

lemma loop_chain:
  "length sts = Suc (length ns) \<Longrightarrow> length es = length ns \<Longrightarrow>
   (\<forall>i<length ns. candidate_fails E (sts ! i) (ns ! i) (es ! i) (sts ! Suc i)) \<Longrightarrow>
   forFirstAvailableNode_loop E (sts ! 0) ns errs = (Inl (errs @ es), sts ! length ns)"
proof (induction ns arbitrary: sts es errs)
  case Nil
  then show ?case by simp
next
  case (Cons n ns)
  from Cons.prems(1) obtain s sts' where sts: "sts = s # sts'" "length sts' = Suc (length ns)"
    by (cases sts) auto
  from Cons.prems(2) obtain e es' where es: "es = e # es'" "length es' = length ns"
    by (cases es) auto
  from Cons.prems(3) have first: "candidate_fails E s n e (sts' ! 0)"
    unfolding sts es by fastforce
  have later: "\<forall>i<length ns. candidate_fails E (sts' ! i) (ns ! i) (es' ! i) (sts' ! Suc i)"
  proof (intro allI impI)
    fix i assume "i < length ns"
    then have "Suc i < length (n # ns)" by simp
    from Cons.prems(3) [rule_format, OF this] show
      "candidate_fails E (sts' ! i) (ns ! i) (es' ! i) (sts' ! Suc i)"
      unfolding sts es by simp
  qed
  from Cons.IH [OF sts(2) es(2) later, of "errs @ [e]"] loop_step_fail [OF first, of ns errs]
  show ?case
    unfolding sts es by simp
qed

lemma loop_exhausted_chain:
  "forFirstAvailableNode_loop E s ns errs = (Inl errs', s') \<Longrightarrow>
   \<exists>sts es. errs' = errs @ es \<and> length sts = Suc (length ns) \<and> length es = length ns \<and>
     sts ! 0 = s \<and> sts ! length ns = s' \<and>
     (\<forall>i<length ns. candidate_fails E (sts ! i) (ns ! i) (es ! i) (sts ! Suc i))"
proof (induction ns arbitrary: s errs)
  case Nil
  then have "errs' = errs @ [] \<and> length [s] = Suc (length ([]::string list)) \<and>
     length ([]::err list) = length ([]::string list) \<and> [s] ! 0 = s \<and>
     [s] ! length ([]::string list) = s' \<and>
     (\<forall>i<length ([]::string list).
        candidate_fails E ([s] ! i) ([] ! i) (([]::err list) ! i) ([s] ! Suc i))"
    by simp
  then show ?case by blast
next
  case (Cons n ns)
  from loop_step_exhausted [OF Cons.prems] obtain e t where
    first: "candidate_fails E s n e t"
    and rest: "forFirstAvailableNode_loop E t ns (errs @ [e]) = (Inl errs', s')"
    by blast
  from Cons.IH [OF rest] obtain sts es where
    ih: "errs' = (errs @ [e]) @ es" "length sts = Suc (length ns)" "length es = length ns"
      "sts ! 0 = t" "sts ! length ns = s'"
      "\<forall>i<length ns. candidate_fails E (sts ! i) (ns ! i) (es ! i) (sts ! Suc i)"
    by blast
  have all: "\<forall>i<length (n # ns).
      candidate_fails E ((s # sts) ! i) ((n # ns) ! i) ((e # es) ! i) ((s # sts) ! Suc i)"
  proof (intro allI impI)
    fix i assume i: "i < length (n # ns)"
    show "candidate_fails E ((s # sts) ! i) ((n # ns) ! i) ((e # es) ! i) ((s # sts) ! Suc i)"
    proof (cases i)
      case 0
      with first ih(4) show ?thesis by simp
    next
      case (Suc j)
      with i ih(6) show ?thesis by simp
    qed
  qed
  from ih all have "errs' = errs @ (e # es) \<and> length (s # sts) = Suc (length (n # ns)) \<and>
     length (e # es) = length (n # ns) \<and> (s # sts) ! 0 = s \<and>
     (s # sts) ! length (n # ns) = s' \<and>
     (\<forall>i<length (n # ns).
        candidate_fails E ((s # sts) ! i) ((n # ns) ! i) ((e # es) ! i) ((s # sts) ! Suc i))"
    by simp
  then show ?case by blast
qed

lemma fl_loop_chain:
  "length sts = Suc (length ns) \<Longrightarrow> length es = length ns \<Longrightarrow>
   (\<forall>i<length ns. getLeaderClient E (sts ! i) (ns ! i) nodes = (Err (es ! i), sts ! Suc i) \<and>
                  errors_Is_errEtcdNodeConnection (es ! i)) \<Longrightarrow>
   forLeader_loop E (sts ! 0) ns nodes errs = (Inl (errs @ es), sts ! length ns)"
proof (induction ns arbitrary: sts es errs)
  case Nil
  then show ?case by simp
next
  case (Cons n ns)
  from Cons.prems(1) obtain s sts' where sts: "sts = s # sts'" "length sts' = Suc (length ns)"
    by (cases sts) auto
  from Cons.prems(2) obtain e es' where es: "es = e # es'" "length es' = length ns"
    by (cases es) auto
  from Cons.prems(3) have first: "getLeaderClient E s n nodes = (Err e, sts' ! 0)"
    "errors_Is_errEtcdNodeConnection e"
    unfolding sts es by fastforce+
  have later: "\<forall>i<length ns.
      getLeaderClient E (sts' ! i) (ns ! i) nodes = (Err (es' ! i), sts' ! Suc i) \<and>
      errors_Is_errEtcdNodeConnection (es' ! i)"
  proof (intro allI impI)
    fix i assume "i < length ns"
    then have "Suc i < length (n # ns)" by simp
    from Cons.prems(3) [rule_format, OF this] show
      "getLeaderClient E (sts' ! i) (ns ! i) nodes = (Err (es' ! i), sts' ! Suc i) \<and>
       errors_Is_errEtcdNodeConnection (es' ! i)"
      unfolding sts es by simp
  qed
  from Cons.IH [OF sts(2) es(2) later, of "errs @ [e]"] first
  show ?case
    unfolding sts es by simp
qed

lemma fl_loop_exhausted_chain:
  "forLeader_loop E s ns nodes errs = (Inl errs', s') \<Longrightarrow>
   \<exists>sts es. errs' = errs @ es \<and> length sts = Suc (length ns) \<and> length es = length ns \<and>
     sts ! 0 = s \<and> sts ! length ns = s' \<and>
     (\<forall>i<length ns. getLeaderClient E (sts ! i) (ns ! i) nodes = (Err (es ! i), sts ! Suc i) \<and>
                    errors_Is_errEtcdNodeConnection (es ! i))"
proof (induction ns arbitrary: s errs)
  case Nil
  then have "errs' = errs @ [] \<and> length [s] = Suc (length ([]::string list)) \<and>
     length ([]::err list) = length ([]::string list) \<and> [s] ! 0 = s \<and>
     [s] ! length ([]::string list) = s' \<and>
     (\<forall>i<length ([]::string list).
        getLeaderClient E ([s] ! i) ([] ! i) nodes = (Err (([]::err list) ! i), [s] ! Suc i) \<and>
        errors_Is_errEtcdNodeConnection (([]::err list) ! i))"
    by simp
  then show ?case by blast
next
  case (Cons n ns)
  from Cons.prems obtain e t where
    first: "getLeaderClient E s n nodes = (Err e, t)" "errors_Is_errEtcdNodeConnection e"
    and rest: "forLeader_loop E t ns nodes (errs @ [e]) = (Inl errs', s')"
    by (auto split: prod.splits result.splits if_splits)
  from Cons.IH [OF rest] obtain sts es where
    ih: "errs' = (errs @ [e]) @ es" "length sts = Suc (length ns)" "length es = length ns"
      "sts ! 0 = t" "sts ! length ns = s'"
      "\<forall>i<length ns. getLeaderClient E (sts ! i) (ns ! i) nodes = (Err (es ! i), sts ! Suc i) \<and>
                     errors_Is_errEtcdNodeConnection (es ! i)"
    by blast
  have all: "\<forall>i<length (n # ns).
      getLeaderClient E ((s # sts) ! i) ((n # ns) ! i) nodes =
        (Err ((e # es) ! i), (s # sts) ! Suc i) \<and>
      errors_Is_errEtcdNodeConnection ((e # es) ! i)"
  proof (intro allI impI)
    fix i assume i: "i < length (n # ns)"
    show "getLeaderClient E ((s # sts) ! i) ((n # ns) ! i) nodes =
        (Err ((e # es) ! i), (s # sts) ! Suc i) \<and>
      errors_Is_errEtcdNodeConnection ((e # es) ! i)"
    proof (cases i)
      case 0
      with first ih(4) show ?thesis by simp
    next
      case (Suc j)
      with i ih(6) show ?thesis by simp
    qed
  qed
  from ih all have "errs' = errs @ (e # es) \<and> length (s # sts) = Suc (length (n # ns)) \<and>
     length (e # es) = length (n # ns) \<and> (s # sts) ! 0 = s \<and>
     (s # sts) ! length (n # ns) = s' \<and>
     (\<forall>i<length (n # ns).
        getLeaderClient E ((s # sts) ! i) ((n # ns) ! i) nodes =
          (Err ((e # es) ! i), (s # sts) ! Suc i) \<and>
        errors_Is_errEtcdNodeConnection ((e # es) ! i))"
    by simp
  then show ?case by blast
qed


text \<open>
  C7, with the labels of the code. Let \<open>forFirstAvailableNode\<close> have constructed its
  clientset and listed, and let every candidate fail in turn: the i-th candidate, tried in the
  state \<open>sts ! i\<close> the loop has reached, fails with \<open>es ! i\<close> in its resolve or in its dial and
  leaves the state \<open>sts ! Suc i\<close>. Then the call returns the single error that wraps the
  aggregate of exactly these causes, in the order of the candidates, under the label "could
  not establish a connection to any etcd node", in the state the last candidate left. The same
  holds of \<open>forLeader\<close> when \<open>getLeaderClient\<close> fails on the i-th candidate with the
  retryable error \<open>es' ! i\<close>: the call returns the aggregate of exactly these errors under the
  label "could not establish a connection to the etcd leader". Conversely, whenever one of
  the two loops runs out of candidates, the list it has recorded is such a list of
  per-candidate causes, one for each candidate.
\<close>

theorem C7_exhausted_aggregate:
  "(ns \<noteq> [] \<and> NewForConfig E (trace s) = None \<and>
    ListPods E (trace s @ [EvNewForConfig]) = Inr pods \<and>
    length sts = Suc (length ns) \<and> length es = length ns \<and>
    sts ! 0 = emit EvList (emit EvNewForConfig s) \<and>
    (\<forall>i<length ns. candidate_fails E (sts ! i) (ns ! i) (es ! i) (sts ! Suc i))
    \<longrightarrow>
      forFirstAvailableNode E s ns =
        (Err (ErrWrap (ErrAggregate es)
           ''could not establish a connection to any etcd node''), sts ! length ns))
   \<and>
   (ns \<noteq> [] \<and> NewForConfig E (trace s) = None \<and>
    ListPods E (trace s @ [EvNewForConfig]) = Inr pods \<and>
    forFirstAvailableNode_loop E (emit EvList (emit EvNewForConfig s)) ns [] = (Inl es, s')
    \<longrightarrow>
      forFirstAvailableNode E s ns =
        (Err (ErrWrap (ErrAggregate es)
           ''could not establish a connection to any etcd node''), s') \<and>
      (\<exists>sts. length sts = Suc (length ns) \<and> length es = length ns \<and>
         sts ! 0 = emit EvList (emit EvNewForConfig s) \<and> sts ! length ns = s' \<and>
         (\<forall>i<length ns. candidate_fails E (sts ! i) (ns ! i) (es ! i) (sts ! Suc i))))
   \<and>
   (ns \<noteq> [] \<and> length sts' = Suc (length ns) \<and> length es' = length ns \<and> sts' ! 0 = s \<and>
    (\<forall>i<length ns.
       getLeaderClient E (sts' ! i) (ns ! i) (set ns) = (Err (es' ! i), sts' ! Suc i) \<and>
       errors_Is_errEtcdNodeConnection (es' ! i))
    \<longrightarrow>
      forLeader E s ns =
        (Err (ErrWrap (ErrAggregate es')
           ''could not establish a connection to the etcd leader''), sts' ! length ns))
   \<and>
   (ns \<noteq> [] \<and> forLeader_loop E s ns (set ns) [] = (Inl es', s'')
    \<longrightarrow>
      forLeader E s ns =
        (Err (ErrWrap (ErrAggregate es')
           ''could not establish a connection to the etcd leader''), s'') \<and>
      (\<exists>sts'. length sts' = Suc (length ns) \<and> length es' = length ns \<and>
         sts' ! 0 = s \<and> sts' ! length ns = s'' \<and>
         (\<forall>i<length ns.
            getLeaderClient E (sts' ! i) (ns ! i) (set ns) = (Err (es' ! i), sts' ! Suc i) \<and>
            errors_Is_errEtcdNodeConnection (es' ! i))))"
proof -
  have wrap1: "forFirstAvailableNode E s ns =
        (Err (ErrWrap (ErrAggregate es0)
           ''could not establish a connection to any etcd node''), t)"
    if "ns \<noteq> []" "NewForConfig E (trace s) = None"
      "ListPods E (trace s @ [EvNewForConfig]) = Inr pods"
      "forFirstAvailableNode_loop E (emit EvList (emit EvNewForConfig s)) ns [] = (Inl es0, t)"
      "length es0 = length ns"
    for es0 t
  proof -
    from that(1,5) have "es0 \<noteq> []" by auto
    with that(1-4) show ?thesis
      by (simp add: forFirstAvailableNode_def Let_def NewAggregate_def)
  qed
  have wrap2: "forLeader E s ns =
        (Err (ErrWrap (ErrAggregate es0)
           ''could not establish a connection to the etcd leader''), t)"
    if "ns \<noteq> []" "forLeader_loop E s ns (set ns) [] = (Inl es0, t)" "length es0 = length ns"
    for es0 t
  proof -
    from that(1,3) have "es0 \<noteq> []" by auto
    with that(1,2) show ?thesis
      by (simp add: forLeader_def Let_def NewAggregate_def)
  qed
  have a1: "ns \<noteq> [] \<and> NewForConfig E (trace s) = None \<and>
    ListPods E (trace s @ [EvNewForConfig]) = Inr pods \<and>
    length sts = Suc (length ns) \<and> length es = length ns \<and>
    sts ! 0 = emit EvList (emit EvNewForConfig s) \<and>
    (\<forall>i<length ns. candidate_fails E (sts ! i) (ns ! i) (es ! i) (sts ! Suc i))
    \<longrightarrow>
      forFirstAvailableNode E s ns =
        (Err (ErrWrap (ErrAggregate es)
           ''could not establish a connection to any etcd node''), sts ! length ns)"
  proof
    assume h: "ns \<noteq> [] \<and> NewForConfig E (trace s) = None \<and>
      ListPods E (trace s @ [EvNewForConfig]) = Inr pods \<and>
      length sts = Suc (length ns) \<and> length es = length ns \<and>
      sts ! 0 = emit EvList (emit EvNewForConfig s) \<and>
      (\<forall>i<length ns. candidate_fails E (sts ! i) (ns ! i) (es ! i) (sts ! Suc i))"
    then have "forFirstAvailableNode_loop E (sts ! 0) ns [] = (Inl ([] @ es), sts ! length ns)"
      by (intro loop_chain) simp_all
    with h have "forFirstAvailableNode_loop E (emit EvList (emit EvNewForConfig s)) ns [] =
        (Inl es, sts ! length ns)"
      by simp
    with h show "forFirstAvailableNode E s ns =
        (Err (ErrWrap (ErrAggregate es)
           ''could not establish a connection to any etcd node''), sts ! length ns)"
      by (intro wrap1) simp_all
  qed
  have a2: "ns \<noteq> [] \<and> NewForConfig E (trace s) = None \<and>
    ListPods E (trace s @ [EvNewForConfig]) = Inr pods \<and>
    forFirstAvailableNode_loop E (emit EvList (emit EvNewForConfig s)) ns [] = (Inl es, s')
    \<longrightarrow>
      forFirstAvailableNode E s ns =
        (Err (ErrWrap (ErrAggregate es)
           ''could not establish a connection to any etcd node''), s') \<and>
      (\<exists>sts. length sts = Suc (length ns) \<and> length es = length ns \<and>
         sts ! 0 = emit EvList (emit EvNewForConfig s) \<and> sts ! length ns = s' \<and>
         (\<forall>i<length ns. candidate_fails E (sts ! i) (ns ! i) (es ! i) (sts ! Suc i)))"
  proof
    assume h: "ns \<noteq> [] \<and> NewForConfig E (trace s) = None \<and>
      ListPods E (trace s @ [EvNewForConfig]) = Inr pods \<and>
      forFirstAvailableNode_loop E (emit EvList (emit EvNewForConfig s)) ns [] = (Inl es, s')"
    then have lo: "forFirstAvailableNode_loop E (emit EvList (emit EvNewForConfig s)) ns [] =
        (Inl es, s')"
      by simp
    from loop_exhausted_chain [OF lo] obtain sts0 es0 where
      c: "es = [] @ es0" "length sts0 = Suc (length ns)" "length es0 = length ns"
        "sts0 ! 0 = emit EvList (emit EvNewForConfig s)" "sts0 ! length ns = s'"
        "\<forall>i<length ns. candidate_fails E (sts0 ! i) (ns ! i) (es0 ! i) (sts0 ! Suc i)"
      by blast
    then have es: "es0 = es" by simp
    from c(2-6) have chain: "\<exists>sts. length sts = Suc (length ns) \<and> length es = length ns \<and>
         sts ! 0 = emit EvList (emit EvNewForConfig s) \<and> sts ! length ns = s' \<and>
         (\<forall>i<length ns. candidate_fails E (sts ! i) (ns ! i) (es ! i) (sts ! Suc i))"
      unfolding es by blast
    from h c(3) have "forFirstAvailableNode E s ns =
        (Err (ErrWrap (ErrAggregate es)
           ''could not establish a connection to any etcd node''), s')"
      unfolding es by (intro wrap1) simp_all
    with chain show "forFirstAvailableNode E s ns =
        (Err (ErrWrap (ErrAggregate es)
           ''could not establish a connection to any etcd node''), s') \<and>
      (\<exists>sts. length sts = Suc (length ns) \<and> length es = length ns \<and>
         sts ! 0 = emit EvList (emit EvNewForConfig s) \<and> sts ! length ns = s' \<and>
         (\<forall>i<length ns. candidate_fails E (sts ! i) (ns ! i) (es ! i) (sts ! Suc i)))"
      by blast
  qed
  have b1: "ns \<noteq> [] \<and> length sts' = Suc (length ns) \<and> length es' = length ns \<and> sts' ! 0 = s \<and>
    (\<forall>i<length ns.
       getLeaderClient E (sts' ! i) (ns ! i) (set ns) = (Err (es' ! i), sts' ! Suc i) \<and>
       errors_Is_errEtcdNodeConnection (es' ! i))
    \<longrightarrow>
      forLeader E s ns =
        (Err (ErrWrap (ErrAggregate es')
           ''could not establish a connection to the etcd leader''), sts' ! length ns)"
  proof
    assume h: "ns \<noteq> [] \<and> length sts' = Suc (length ns) \<and> length es' = length ns \<and>
      sts' ! 0 = s \<and>
      (\<forall>i<length ns.
         getLeaderClient E (sts' ! i) (ns ! i) (set ns) = (Err (es' ! i), sts' ! Suc i) \<and>
         errors_Is_errEtcdNodeConnection (es' ! i))"
    then have "forLeader_loop E (sts' ! 0) ns (set ns) [] = (Inl ([] @ es'), sts' ! length ns)"
      by (intro fl_loop_chain) simp_all
    with h have "forLeader_loop E s ns (set ns) [] = (Inl es', sts' ! length ns)"
      by simp
    with h show "forLeader E s ns =
        (Err (ErrWrap (ErrAggregate es')
           ''could not establish a connection to the etcd leader''), sts' ! length ns)"
      by (intro wrap2) simp_all
  qed
  have b2: "ns \<noteq> [] \<and> forLeader_loop E s ns (set ns) [] = (Inl es', s'')
    \<longrightarrow>
      forLeader E s ns =
        (Err (ErrWrap (ErrAggregate es')
           ''could not establish a connection to the etcd leader''), s'') \<and>
      (\<exists>sts'. length sts' = Suc (length ns) \<and> length es' = length ns \<and>
         sts' ! 0 = s \<and> sts' ! length ns = s'' \<and>
         (\<forall>i<length ns.
            getLeaderClient E (sts' ! i) (ns ! i) (set ns) = (Err (es' ! i), sts' ! Suc i) \<and>
            errors_Is_errEtcdNodeConnection (es' ! i)))"
  proof
    assume h: "ns \<noteq> [] \<and> forLeader_loop E s ns (set ns) [] = (Inl es', s'')"
    then have lo: "forLeader_loop E s ns (set ns) [] = (Inl es', s'')" by simp
    from fl_loop_exhausted_chain [OF lo] obtain sts0 es0 where
      c: "es' = [] @ es0" "length sts0 = Suc (length ns)" "length es0 = length ns"
        "sts0 ! 0 = s" "sts0 ! length ns = s''"
        "\<forall>i<length ns.
           getLeaderClient E (sts0 ! i) (ns ! i) (set ns) = (Err (es0 ! i), sts0 ! Suc i) \<and>
           errors_Is_errEtcdNodeConnection (es0 ! i)"
      by blast
    then have es: "es0 = es'" by simp
    from c(2-6) have chain: "\<exists>sts'. length sts' = Suc (length ns) \<and> length es' = length ns \<and>
         sts' ! 0 = s \<and> sts' ! length ns = s'' \<and>
         (\<forall>i<length ns.
            getLeaderClient E (sts' ! i) (ns ! i) (set ns) = (Err (es' ! i), sts' ! Suc i) \<and>
            errors_Is_errEtcdNodeConnection (es' ! i))"
      unfolding es by blast
    from h c(3) have "forLeader E s ns =
        (Err (ErrWrap (ErrAggregate es')
           ''could not establish a connection to the etcd leader''), s'')"
      unfolding es by (intro wrap2) simp_all
    with chain show "forLeader E s ns =
        (Err (ErrWrap (ErrAggregate es')
           ''could not establish a connection to the etcd leader''), s'') \<and>
      (\<exists>sts'. length sts' = Suc (length ns) \<and> length es' = length ns \<and>
         sts' ! 0 = s \<and> sts' ! length ns = s'' \<and>
         (\<forall>i<length ns.
            getLeaderClient E (sts' ! i) (ns ! i) (set ns) = (Err (es' ! i), sts' ! Suc i) \<and>
            errors_Is_errEtcdNodeConnection (es' ! i)))"
      by blast
  qed
  from a1 a2 b1 b2 show ?thesis by blast
qed


theorem C7_exhausted_aggregate_witness:
  "forFirstAvailableNode E7 s0 [''A'', ''B''] =
     (Err (ErrWrap
        (ErrAggregate [ErrNew ''unable to find etcd proxy pod for node A'',
                       ErrNew ''connection refused''])
        ''could not establish a connection to any etcd node''),
      \<lparr>etcdPodMap = Some m0,
       trace = [EvNewForConfig, EvList, EvNewForConfig, EvList,
                EvCreateClient ''proxy-B'' None]\<rparr>)
   \<and> forLeader E0 s0 [''A'', ''B''] =
     (Err (ErrWrap
       (ErrAggregate
         [ErrAggregate
            [ErrWrap (ErrAggregate [ErrNew ''unable to find etcd proxy pod for node A''])
               ''could not establish a connection to any etcd node'',
             ErrEtcdNodeConnection],
          ErrAggregate [ErrNew ''context deadline exceeded'', ErrEtcdNodeConnection]])
       ''could not establish a connection to the etcd leader''),
      \<lparr>etcdPodMap = Some m0,
       trace = [EvNewForConfig, EvList, EvNewForConfig, EvList, EvNewForConfig, EvList,
                EvCreateClient ''proxy-B'' (Some 6), EvMembers 6, EvClose 6]\<rparr>)"
proof -
  let ?pods = "[\<lparr>pod_NodeName = ''B'', pod_Name = ''proxy-B''\<rparr>,
                \<lparr>pod_NodeName = ''C'', pod_Name = ''proxy-C''\<rparr>]"
  let ?t0 = "\<lparr>etcdPodMap = None, trace = [EvNewForConfig, EvList]\<rparr>"
  let ?tA = "\<lparr>etcdPodMap = Some m0, trace = [EvNewForConfig, EvList, EvNewForConfig, EvList]\<rparr>"
  let ?tB = "\<lparr>etcdPodMap = Some m0,
             trace = [EvNewForConfig, EvList, EvNewForConfig, EvList,
                      EvCreateClient ''proxy-B'' None]\<rparr>"
  let ?es = "[ErrNew ''unable to find etcd proxy pod for node A'', ErrNew ''connection refused'']"
  let ?uB = "\<lparr>etcdPodMap = Some m0,
       trace = [EvNewForConfig, EvList, EvNewForConfig, EvList, EvNewForConfig, EvList,
                EvCreateClient ''proxy-B'' (Some 6), EvMembers 6, EvClose 6]\<rparr>"
  let ?es' = "[ErrAggregate
            [ErrWrap (ErrAggregate [ErrNew ''unable to find etcd proxy pod for node A''])
               ''could not establish a connection to any etcd node'',
             ErrEtcdNodeConnection],
          ErrAggregate [ErrNew ''context deadline exceeded'', ErrEtcdNodeConnection]]"
  have two: "[''A'', ''B''] \<noteq> ([]::string list)"
    by simp
  have pre: "NewForConfig E7 (trace s0) = None \<and>
      ListPods E7 (trace s0 @ [EvNewForConfig]) = Inr ?pods"
    by (simp add: E7_def E0_def)
  have shape: "length [?t0, ?tA, ?tB] = Suc (length [''A'', ''B'']) \<and>
      length ?es = length [''A'', ''B''] \<and>
      [?t0, ?tA, ?tB] ! 0 = emit EvList (emit EvNewForConfig s0)"
    by (simp add: emit_def s0_def)
  have chain: "\<forall>i<length [''A'', ''B''].
      candidate_fails E7 ([?t0, ?tA, ?tB] ! i) ([''A'', ''B''] ! i) (?es ! i)
        ([?t0, ?tA, ?tB] ! Suc i)"
    by (simp add: less_Suc_eq candidate_fails_def findEtcdProxyPod_def lookupPod_def
        buildEtcdMap_def E7_def E0_def m0_def emit_def Let_def)
  from C7_exhausted_aggregate [where ns = "[''A'', ''B'']" and E = E7 and s = s0
      and pods = ?pods and sts = "[?t0, ?tA, ?tB]" and es = ?es]
    two pre shape chain
  have first: "forFirstAvailableNode E7 s0 [''A'', ''B''] =
     (Err (ErrWrap (ErrAggregate ?es)
        ''could not establish a connection to any etcd node''),
      [?t0, ?tA, ?tB] ! length [''A'', ''B''])"
    by blast
  have shape': "length [s0, ?tA, ?uB] = Suc (length [''A'', ''B'']) \<and>
      length ?es' = length [''A'', ''B''] \<and> [s0, ?tA, ?uB] ! 0 = s0"
    by simp
  have chain': "\<forall>i<length [''A'', ''B''].
      getLeaderClient E0 ([s0, ?tA, ?uB] ! i) ([''A'', ''B''] ! i) (set [''A'', ''B'']) =
        (Err (?es' ! i), [s0, ?tA, ?uB] ! Suc i) \<and>
      errors_Is_errEtcdNodeConnection (?es' ! i)"
    by (simp add: less_Suc_eq getLeaderClient_def forFirstAvailableNode_def
        findEtcdProxyPod_def lookupPod_def buildEtcdMap_def NewAggregate_def
        E0_def s0_def m0_def emit_def Let_def)
  from C7_exhausted_aggregate [where ns = "[''A'', ''B'']" and E = E0 and s = s0
      and sts' = "[s0, ?tA, ?uB]" and es' = ?es']
    two shape' chain'
  have second: "forLeader E0 s0 [''A'', ''B''] =
     (Err (ErrWrap (ErrAggregate ?es')
        ''could not establish a connection to the etcd leader''),
      [s0, ?tA, ?uB] ! length [''A'', ''B''])"
    by blast
  from first second show ?thesis by simp
qed

text \<open>
  The label of the first aggregate is "could not establish a connection to any etcd node":
  on candidate A of the concrete cluster, which has no proxy pod, the call does not return
  an error labelled "could not establish a connection to any node.".
\<close>

theorem C7_label_counterexample:
  "fst (forFirstAvailableNode E0 s0 [''A'']) =
     Err (ErrWrap (ErrAggregate [ErrNew ''unable to find etcd proxy pod for node A''])
        ''could not establish a connection to any etcd node'')
   \<and> fst (forFirstAvailableNode E0 s0 [''A'']) \<noteq>
     Err (ErrWrap (ErrAggregate [ErrNew ''unable to find etcd proxy pod for node A''])
        ''could not establish a connection to any node.'')"
  by (simp add: forFirstAvailableNode_def findEtcdProxyPod_def lookupPod_def buildEtcdMap_def
      NewAggregate_def E0_def s0_def emit_def Let_def)

section \<open>Fatal outcomes of the leader resolution\<close>

text \<open>
  C1. Let the candidates be \<open>pre @ n # post\<close>, let the loop of \<open>forLeader\<close> have gone through
  \<open>pre\<close> with retryable failures only (recorded in \<open>es\<close>), and let the probe of \<open>n\<close> connect
  and its membership query answer. If no member has the reported leader id, or the leader's
  node name is not among the candidates, \<open>forLeader\<close> returns the bare inconsistency error:
  it does not carry the retryable marker, it is not wrapped in an aggregate, and the recorded
  \<open>es\<close> are not part of it. The final state is the one reached by the query on \<open>n\<close> followed
  by the close of its temporary client: no candidate of \<open>post\<close> is probed, and no second dial
  is made.
\<close>

theorem C1_inconsistency_is_fatal:
  assumes split: "ns = pre @ n # post"
    and earlier: "forLeader_loop E s pre (set ns) [] = (Inl es, t)"
    and connect: "forFirstAvailableNode E t [n] = (Ok cl, t1)"
    and query: "Members E (trace t1) cl = Inr ms"
    and bad: "find (\<lambda>m. member_ID m = LeaderID cl) ms = None \<or>
              (\<exists>lm. find (\<lambda>m. member_ID m = LeaderID cl) ms = Some lm \<and>
                    NodeNameFromMember E lm \<notin> set ns)"
  shows "forLeader E s ns =
           (Err (case find (\<lambda>m. member_ID m = LeaderID cl) ms of
                   None \<Rightarrow> ErrLeaderWithoutMember (LeaderID cl)
                 | Some lm \<Rightarrow> ErrLeaderWithoutNode (member_ID lm) (NodeNameFromMember E lm)),
            emit (EvClose (handle cl)) (emit (EvMembers (handle cl)) t1))
         \<and> \<not> errors_Is_errEtcdNodeConnection
             (case find (\<lambda>m. member_ID m = LeaderID cl) ms of
                None \<Rightarrow> ErrLeaderWithoutMember (LeaderID cl)
              | Some lm \<Rightarrow> ErrLeaderWithoutNode (member_ID lm) (NodeNameFromMember E lm))"
proof -
  let ?e = "case find (\<lambda>m. member_ID m = LeaderID cl) ms of
              None \<Rightarrow> ErrLeaderWithoutMember (LeaderID cl)
            | Some lm \<Rightarrow> ErrLeaderWithoutNode (member_ID lm) (NodeNameFromMember E lm)"
  have fatal: "\<not> errors_Is_errEtcdNodeConnection ?e"
    by (simp split: option.splits)
  have glc: "getLeaderClient E t n (set ns) =
      (Err ?e, emit (EvClose (handle cl)) (emit (EvMembers (handle cl)) t1))"
    using connect query bad by (auto simp: getLeaderClient_def Let_def)
  have "forLeader_loop E t (n # post) (set ns) es =
      (Inr (Err ?e), emit (EvClose (handle cl)) (emit (EvMembers (handle cl)) t1))"
    using glc fatal by simp
  then have "forLeader_loop E s ns (set ns) [] =
      (Inr (Err ?e), emit (EvClose (handle cl)) (emit (EvMembers (handle cl)) t1))"
    using earlier by (simp add: split fl_loop_append del: forLeader_loop.simps)
  then show ?thesis
    using fatal split by (simp add: forLeader_def Let_def del: forLeader_loop.simps)
qed


theorem C1_inconsistency_is_fatal_witness:
  "forLeader E2 s0 [''A'', ''C'', ''B''] =
     (Err (ErrLeaderWithoutMember 7),
      \<lparr>etcdPodMap = Some m0,
       trace = [EvNewForConfig, EvList, EvNewForConfig, EvList, EvNewForConfig, EvList,
                EvCreateClient ''proxy-C'' (Some 6), EvMembers 6, EvClose 6]\<rparr>)"
proof -
  let ?tA = "\<lparr>etcdPodMap = Some m0, trace = [EvNewForConfig, EvList, EvNewForConfig, EvList]\<rparr>"
  let ?cl = "\<lparr>handle = 6, Endpoint = ''proxy-C'', LeaderID = 7\<rparr>"
  let ?tC = "\<lparr>etcdPodMap = Some m0,
             trace = [EvNewForConfig, EvList, EvNewForConfig, EvList, EvNewForConfig, EvList,
                      EvCreateClient ''proxy-C'' (Some 6)]\<rparr>"
  let ?ms = "[\<lparr>member_ID = 2, member_Name = ''B''\<rparr>, \<lparr>member_ID = 3, member_Name = ''C''\<rparr>]"
  have h1: "[''A'', ''C'', ''B''] = [''A''] @ ''C'' # [''B'']"
    by simp
  have h2: "forLeader_loop E2 s0 [''A''] (set [''A'', ''C'', ''B'']) [] =
      (Inl [ErrAggregate
              [ErrWrap (ErrAggregate [ErrNew ''unable to find etcd proxy pod for node A''])
                 ''could not establish a connection to any etcd node'',
               ErrEtcdNodeConnection]], ?tA)"
    by (simp add: getLeaderClient_def forFirstAvailableNode_def findEtcdProxyPod_def
        lookupPod_def buildEtcdMap_def NewAggregate_def E2_def E0_def s0_def m0_def emit_def
        Let_def)
  have h3: "forFirstAvailableNode E2 ?tA [''C''] = (Ok ?cl, ?tC)"
    by (simp add: forFirstAvailableNode_def findEtcdProxyPod_def lookupPod_def
        E2_def E0_def m0_def emit_def Let_def)
  have h4: "Members E2 (trace ?tC) ?cl = Inr ?ms"
    by (simp add: E2_def E0_def)
  have h5: "find (\<lambda>m. member_ID m = LeaderID ?cl) ?ms = None \<or>
      (\<exists>lm. find (\<lambda>m. member_ID m = LeaderID ?cl) ?ms = Some lm \<and>
            NodeNameFromMember E2 lm \<notin> set [''A'', ''C'', ''B''])"
    by simp
  from C1_inconsistency_is_fatal [OF h1 h2 h3 h4 h5] show ?thesis
    by (simp add: emit_def)
qed

lemma find_unmarked:
  "collaborators_unmarked E \<Longrightarrow> findEtcdProxyPod E s n = (Inl e, s') \<Longrightarrow>
   \<not> errors_Is_errEtcdNodeConnection e"
  by (auto simp: findEtcdProxyPod_def collaborators_unmarked_def lookupPod_def Let_def
      split: option.splits sum.splits if_splits)

lemma loop_unmarked:
  "collaborators_unmarked E \<Longrightarrow> \<not> list_ex errors_Is_errEtcdNodeConnection errs \<Longrightarrow>
   forFirstAvailableNode_loop E s ns errs = (Inl errs', s') \<Longrightarrow>
   \<not> list_ex errors_Is_errEtcdNodeConnection errs'"
proof (induction ns arbitrary: s errs)
  case Nil
  then show ?case by simp
next
  case (Cons n ns)
  obtain r t where f: "findEtcdProxyPod E s n = (r, t)"
    by (cases "findEtcdProxyPod E s n")
  show ?case
  proof (cases r)
    case (Inl e)
    with f Cons.prems(1) have "\<not> errors_Is_errEtcdNodeConnection e"
      by (auto dest: find_unmarked)
    with Cons.prems(2) have "\<not> list_ex errors_Is_errEtcdNodeConnection (errs @ [e])"
      by (simp add: list_ex_iff)
    from Cons.IH [OF Cons.prems(1) this] Cons.prems(3) f Inl show ?thesis
      by simp
  next
    case (Inr podName)
    with Cons.prems(3) f obtain e where
      d: "createClient E (trace t) podName = Inl e"
      and rec: "forFirstAvailableNode_loop E (emit (EvCreateClient podName None) t) ns
                  (errs @ [e]) = (Inl errs', s')"
      by (auto split: sum.splits)
    from d Cons.prems(1) have "\<not> errors_Is_errEtcdNodeConnection e"
      by (auto simp: collaborators_unmarked_def)
    with Cons.prems(2) have "\<not> list_ex errors_Is_errEtcdNodeConnection (errs @ [e])"
      by (simp add: list_ex_iff)
    from Cons.IH [OF Cons.prems(1) this rec] show ?thesis .
  qed
qed

lemma ffan_unmarked:
  assumes "collaborators_unmarked E" and "forFirstAvailableNode E s ns = (Err e, s')"
  shows "\<not> errors_Is_errEtcdNodeConnection e"
proof (cases "ns = []")
  case True
  with assms(2) show ?thesis by (auto simp: forFirstAvailableNode_def)
next
  case False
  show ?thesis
  proof (cases "NewForConfig E (trace s)")
    case (Some x)
    with assms False show ?thesis
      by (auto simp: forFirstAvailableNode_def collaborators_unmarked_def)
  next
    case None
    show ?thesis
    proof (cases "ListPods E (trace s @ [EvNewForConfig])")
      case (Inl x)
      with assms False None show ?thesis
        by (auto simp: forFirstAvailableNode_def Let_def collaborators_unmarked_def)
    next
      case (Inr pods)
      obtain r u where lr: "forFirstAvailableNode_loop E (emit EvList (emit EvNewForConfig s)) ns [] = (r, u)"
        by (cases "forFirstAvailableNode_loop E (emit EvList (emit EvNewForConfig s)) ns []")
      with assms(2) False None Inr obtain errs where r: "r = Inl errs"
        by (cases r) (simp_all add: forFirstAvailableNode_def Let_def)
      with lr assms(2) False None Inr have
        lo: "forFirstAvailableNode_loop E (emit EvList (emit EvNewForConfig s)) ns [] =
               (Inl errs, s')"
        and e: "return_err (errors_Wrap (NewAggregate errs)
                  ''could not establish a connection to any etcd node'') =
               (Err e :: client result)"
        by (simp_all add: forFirstAvailableNode_def Let_def)
      from loop_unmarked [OF assms(1) _ lo] have "\<not> list_ex errors_Is_errEtcdNodeConnection errs"
        by simp
      with e show ?thesis
        by (auto simp: NewAggregate_def split: if_splits)
    qed
  qed
qed

text \<open>
  C9. With the candidates \<open>pre @ n # post\<close> and \<open>pre\<close> exhausted as before, let the probe of
  \<open>n\<close> connect, let the leader member be found and its node be a candidate, and let the
  second dial, to the leader's node, fail with \<open>e\<close>. Then \<open>getLeaderClient\<close> returns \<open>e\<close> as
  it is, without adding the sentinel; \<open>e\<close> does not carry the sentinel when the collaborators
  do not produce it; and \<open>forLeader\<close> returns \<open>e\<close> at once, after the deferred close, without
  probing \<open>post\<close>.
\<close>

theorem C9_second_dial_failure_is_fatal:
  assumes split: "ns = pre @ n # post"
    and earlier: "forLeader_loop E s pre (set ns) [] = (Inl es, t)"
    and connect: "forFirstAvailableNode E t [n] = (Ok cl, t1)"
    and query: "Members E (trace t1) cl = Inr ms"
    and leader: "find (\<lambda>m. member_ID m = LeaderID cl) ms = Some lm"
    and known: "NodeNameFromMember E lm \<in> set ns"
    and redial: "forFirstAvailableNode E (emit (EvMembers (handle cl)) t1)
                   [NodeNameFromMember E lm] = (Err e, t2)"
    and unmarked: "collaborators_unmarked E"
  shows "getLeaderClient E t n (set ns) = (Err e, emit (EvClose (handle cl)) t2)
       \<and> \<not> errors_Is_errEtcdNodeConnection e
       \<and> forLeader E s ns = (Err e, emit (EvClose (handle cl)) t2)"
proof -
  have glc: "getLeaderClient E t n (set ns) = (Err e, emit (EvClose (handle cl)) t2)"
    using connect query leader known redial by (simp add: getLeaderClient_def Let_def)
  have fatal: "\<not> errors_Is_errEtcdNodeConnection e"
    using ffan_unmarked [OF unmarked redial] .
  have "forLeader_loop E t (n # post) (set ns) es = (Inr (Err e), emit (EvClose (handle cl)) t2)"
    using glc fatal by simp
  then have "forLeader_loop E s ns (set ns) [] = (Inr (Err e), emit (EvClose (handle cl)) t2)"
    using earlier by (simp add: split fl_loop_append del: forLeader_loop.simps)
  then have "forLeader E s ns = (Err e, emit (EvClose (handle cl)) t2)"
    using split by (simp add: forLeader_def Let_def del: forLeader_loop.simps)
  with glc fatal show ?thesis by simp
qed

theorem C9_second_dial_failure_is_fatal_witness:
  "forLeader E1 s0 [''C'', ''A''] =
     (Err (ErrWrap (ErrAggregate [ErrNew ''unable to find etcd proxy pod for node A''])
        ''could not establish a connection to any etcd node''),
      \<lparr>etcdPodMap = Some m0,
       trace = [EvNewForConfig, EvList, EvNewForConfig, EvList,
                EvCreateClient ''proxy-C'' (Some 4), EvMembers 4, EvNewForConfig, EvList,
                EvClose 4]\<rparr>)"
proof -
  let ?cl = "\<lparr>handle = 4, Endpoint = ''proxy-C'', LeaderID = 3\<rparr>"
  let ?t1 = "\<lparr>etcdPodMap = Some m0,
             trace = [EvNewForConfig, EvList, EvNewForConfig, EvList,
                      EvCreateClient ''proxy-C'' (Some 4)]\<rparr>"
  let ?lm = "\<lparr>member_ID = 3, member_Name = ''A''\<rparr>"
  let ?t2 = "\<lparr>etcdPodMap = Some m0,
             trace = [EvNewForConfig, EvList, EvNewForConfig, EvList,
                      EvCreateClient ''proxy-C'' (Some 4), EvMembers 4,
                      EvNewForConfig, EvList]\<rparr>"
  have h1: "[''C'', ''A''] = [] @ ''C'' # [''A'']"
    by simp
  have h2: "forLeader_loop E1 s0 [] (set [''C'', ''A'']) [] = (Inl [], s0)"
    by simp
  have h3: "forFirstAvailableNode E1 s0 [''C''] = (Ok ?cl, ?t1)"
    by (simp add: forFirstAvailableNode_def findEtcdProxyPod_def lookupPod_def buildEtcdMap_def
        E1_def E0_def s0_def m0_def emit_def Let_def)
  have h4: "Members E1 (trace ?t1) ?cl = Inr [?lm]"
    by (simp add: E1_def E0_def)
  have h5: "find (\<lambda>m. member_ID m = LeaderID ?cl) [?lm] = Some ?lm"
    by simp
  have h6: "NodeNameFromMember E1 ?lm \<in> set [''C'', ''A'']"
    by (simp add: E1_def E0_def)
  have h7: "forFirstAvailableNode E1 (emit (EvMembers (handle ?cl)) ?t1)
              [NodeNameFromMember E1 ?lm] =
      (Err (ErrWrap (ErrAggregate [ErrNew ''unable to find etcd proxy pod for node A''])
         ''could not establish a connection to any etcd node''), ?t2)"
    by (simp add: forFirstAvailableNode_def findEtcdProxyPod_def lookupPod_def
        NewAggregate_def E1_def E0_def m0_def emit_def Let_def)
  have h8: "collaborators_unmarked E1"
    by (simp add: collaborators_unmarked_def E1_def E0_def)
  from C9_second_dial_failure_is_fatal [OF h1 h2 h3 h4 h5 h6 h7 h8] show ?thesis
    by (simp add: emit_def)
qed

section \<open>Retryable failures of the leader resolution\<close>

lemma query_failure_retryable:
  assumes connect: "forFirstAvailableNode E t [n] = (Ok cl, t1)"
    and query: "Members E (trace t1) cl = Inl e"
  shows "forLeader_loop E t (n # rest) nodes errs =
           forLeader_loop E (emit (EvClose (handle cl)) (emit (EvMembers (handle cl)) t1)) rest
             nodes (errs @ [ErrAggregate [e, ErrEtcdNodeConnection]])"
  using connect query by (simp add: getLeaderClient_def Let_def NewAggregate_def)

text \<open>
  C2. Candidates a, b, c on a generator whose map is not yet built, with a clientset that
  answers every listing with the same non-empty pod list: a has no proxy pod, the dial to
  b's pod succeeds and the membership query through it fails, the dial to c's pod succeeds
  and the query through it names c itself as the leader's node. Then \<open>forLeader\<close> returns a
  client on c's pod, opened by the last dial, and the trace shows the whole run: a fails in
  the resolve, b is dialled, queried and closed, c is dialled, queried, dialled again and its
  temporary client closed. The failures of a and b are not in the result. In general, a
  membership query that fails after a successful connect yields an error carrying the
  retryable marker, which the loop records before it goes on to the next candidate.
\<close>

theorem C2_query_failure_then_leader:
  assumes fresh: "etcdPodMap s = None"
    and nfc: "\<forall>h. NewForConfig E h = None"
    and lst: "\<forall>h. ListPods E h = Inr pods"
    and some: "pods \<noteq> []"
    and podA: "buildEtcdMap pods a = None"
    and podB: "buildEtcdMap pods b = Some pb"
    and podC: "buildEtcdMap pods c = Some pc"
    and dialB: "\<forall>h. createClient E h pb = Inr lb"
    and dialC: "\<forall>h. createClient E h pc = Inr lc"
    and queryB: "\<forall>h cl. Endpoint cl = pb \<longrightarrow> Members E h cl = Inl eb"
    and queryC: "\<forall>h cl. Endpoint cl = pc \<longrightarrow> Members E h cl = Inr ms"
    and leader: "find (\<lambda>m. member_ID m = lc) ms = Some lm"
    and self: "NodeNameFromMember E lm = c"
  shows "forLeader E s [a, b, c] =
           (Ok \<lparr>handle = length (trace s) + 15, Endpoint = pc, LeaderID = lc\<rparr>,
            \<lparr>etcdPodMap = Some (buildEtcdMap pods),
             trace = trace s @
               [EvNewForConfig, EvList, EvNewForConfig, EvList,
                EvNewForConfig, EvList, EvCreateClient pb (Some (length (trace s) + 6)),
                EvMembers (length (trace s) + 6), EvClose (length (trace s) + 6),
                EvNewForConfig, EvList, EvCreateClient pc (Some (length (trace s) + 11)),
                EvMembers (length (trace s) + 11),
                EvNewForConfig, EvList, EvCreateClient pc (Some (length (trace s) + 15)),
                EvClose (length (trace s) + 11)]\<rparr>)
       \<and> (\<forall>t n cl t1 e rest nodes errs.
            forFirstAvailableNode E t [n] = (Ok cl, t1) \<and> Members E (trace t1) cl = Inl e \<longrightarrow>
            errors_Is_errEtcdNodeConnection (ErrAggregate [e, ErrEtcdNodeConnection]) \<and>
            forLeader_loop E t (n # rest) nodes errs =
              forLeader_loop E (emit (EvClose (handle cl)) (emit (EvMembers (handle cl)) t1))
                rest nodes (errs @ [ErrAggregate [e, ErrEtcdNodeConnection]]))"
proof -
  let ?m = "buildEtcdMap pods"
  let ?A = "\<lparr>etcdPodMap = Some ?m,
             trace = trace s @ [EvNewForConfig, EvList, EvNewForConfig, EvList]\<rparr>"
  let ?eA = "ErrAggregate
               [ErrWrap (ErrAggregate [ErrNew (''unable to find etcd proxy pod for node '' @ a)])
                  ''could not establish a connection to any etcd node'',
                ErrEtcdNodeConnection]"
  let ?B = "\<lparr>etcdPodMap = Some ?m,
             trace = trace s @ [EvNewForConfig, EvList, EvNewForConfig, EvList,
                EvNewForConfig, EvList, EvCreateClient pb (Some (length (trace s) + 6)),
                EvMembers (length (trace s) + 6), EvClose (length (trace s) + 6)]\<rparr>"
  let ?eB = "ErrAggregate [eb, ErrEtcdNodeConnection]"
  let ?clC = "\<lparr>handle = length (trace s) + 15, Endpoint = pc, LeaderID = lc\<rparr>"
  let ?C = "\<lparr>etcdPodMap = Some ?m,
             trace = trace s @
               [EvNewForConfig, EvList, EvNewForConfig, EvList,
                EvNewForConfig, EvList, EvCreateClient pb (Some (length (trace s) + 6)),
                EvMembers (length (trace s) + 6), EvClose (length (trace s) + 6),
                EvNewForConfig, EvList, EvCreateClient pc (Some (length (trace s) + 11)),
                EvMembers (length (trace s) + 11),
                EvNewForConfig, EvList, EvCreateClient pc (Some (length (trace s) + 15)),
                EvClose (length (trace s) + 11)]\<rparr>"
  have s_eq: "s = \<lparr>etcdPodMap = None, trace = trace s\<rparr>"
    using fresh by (cases s) simp
  have gA: "getLeaderClient E s a {a, b, c} = (Err ?eA, ?A)"
    using fresh nfc lst some podA
    by (subst s_eq)
       (simp add: getLeaderClient_def forFirstAvailableNode_def findEtcdProxyPod_def
         lookupPod_def NewAggregate_def emit_def Let_def)
  have gB: "getLeaderClient E ?A b {a, b, c} = (Err ?eB, ?B)"
    using nfc lst podB dialB queryB
    by (simp add: getLeaderClient_def forFirstAvailableNode_def findEtcdProxyPod_def
        lookupPod_def NewAggregate_def emit_def Let_def)
  have gC: "getLeaderClient E ?B c {a, b, c} = (Ok ?clC, ?C)"
    using nfc lst podC dialC queryC leader self
    by (simp add: getLeaderClient_def forFirstAvailableNode_def findEtcdProxyPod_def
        lookupPod_def NewAggregate_def emit_def Let_def)
  have run: "forLeader E s [a, b, c] = (Ok ?clC, ?C)"
    using gA gB gC by (simp add: forLeader_def Let_def insert_commute)
  have gen: "\<forall>t n cl t1 e rest nodes errs.
            forFirstAvailableNode E t [n] = (Ok cl, t1) \<and> Members E (trace t1) cl = Inl e \<longrightarrow>
            errors_Is_errEtcdNodeConnection (ErrAggregate [e, ErrEtcdNodeConnection]) \<and>
            forLeader_loop E t (n # rest) nodes errs =
              forLeader_loop E (emit (EvClose (handle cl)) (emit (EvMembers (handle cl)) t1))
                rest nodes (errs @ [ErrAggregate [e, ErrEtcdNodeConnection]])"
    using query_failure_retryable by simp
  from run gen show ?thesis by blast
qed


theorem C2_query_failure_then_leader_witness:
  "forLeader E0 s0 [''A'', ''B'', ''C''] =
     (Ok \<lparr>handle = 15, Endpoint = ''proxy-C'', LeaderID = 3\<rparr>,
      \<lparr>etcdPodMap = Some m0,
       trace = [EvNewForConfig, EvList, EvNewForConfig, EvList,
                EvNewForConfig, EvList, EvCreateClient ''proxy-B'' (Some 6),
                EvMembers 6, EvClose 6,
                EvNewForConfig, EvList, EvCreateClient ''proxy-C'' (Some 11), EvMembers 11,
                EvNewForConfig, EvList, EvCreateClient ''proxy-C'' (Some 15),
                EvClose 11]\<rparr>)"
proof -
  let ?pods = "[\<lparr>pod_NodeName = ''B'', pod_Name = ''proxy-B''\<rparr>,
                \<lparr>pod_NodeName = ''C'', pod_Name = ''proxy-C''\<rparr>]"
  let ?ms = "[\<lparr>member_ID = 2, member_Name = ''B''\<rparr>, \<lparr>member_ID = 3, member_Name = ''C''\<rparr>]"
  have h1: "etcdPodMap s0 = None" by (simp add: s0_def)
  have h2: "\<forall>h. NewForConfig E0 h = None" by (simp add: E0_def)
  have h3: "\<forall>h. ListPods E0 h = Inr ?pods" by (simp add: E0_def)
  have h4: "?pods \<noteq> []" by simp
  have h5: "buildEtcdMap ?pods ''A'' = None" by (simp add: buildEtcdMap_def)
  have h6: "buildEtcdMap ?pods ''B'' = Some ''proxy-B''" by (simp add: buildEtcdMap_def)
  have h7: "buildEtcdMap ?pods ''C'' = Some ''proxy-C''" by (simp add: buildEtcdMap_def)
  have h8: "\<forall>h. createClient E0 h ''proxy-B'' = Inr 3" by (simp add: E0_def)
  have h9: "\<forall>h. createClient E0 h ''proxy-C'' = Inr 3" by (simp add: E0_def)
  have h10: "\<forall>h cl. Endpoint cl = ''proxy-B'' \<longrightarrow>
      Members E0 h cl = Inl (ErrNew ''context deadline exceeded'')"
    by (simp add: E0_def)
  have h11: "\<forall>h cl. Endpoint cl = ''proxy-C'' \<longrightarrow> Members E0 h cl = Inr ?ms"
    by (simp add: E0_def)
  have h12: "find (\<lambda>m. member_ID m = 3) ?ms = Some \<lparr>member_ID = 3, member_Name = ''C''\<rparr>"
    by simp
  have h13: "NodeNameFromMember E0 \<lparr>member_ID = 3, member_Name = ''C''\<rparr> = ''C''"
    by (simp add: E0_def)
  have m: "buildEtcdMap ?pods = m0"
    by (simp add: buildEtcdMap_def m0_def)
  from C2_query_failure_then_leader [OF h1 h2 h3 h4 h5 h6 h7 h8 h9 h10 h11 h12 h13]
  show ?thesis
    by (simp add: m s0_def)
qed

section \<open>An empty pod inventory\<close>

lemma empty_inventory_find:
  assumes "etcdPodMap s = None" and "\<forall>h. NewForConfig E h = None"
    and "\<forall>h. ListPods E h = Inr []"
  shows "findEtcdProxyPod E s n =
           (Inl (ErrNew ''there isn't any etcd-proxy pods in target cluster''),
            s\<lparr>trace := trace s @ [EvNewForConfig, EvList]\<rparr>)"
  using assms by (simp add: findEtcdProxyPod_def emit_def Let_def)

lemma empty_inventory_loop:
  assumes "\<forall>h. NewForConfig E h = None" and "\<forall>h. ListPods E h = Inr []"
  shows "etcdPodMap s = None \<Longrightarrow>
         forFirstAvailableNode_loop E s ns errs =
           (Inl (errs @ replicate (length ns)
                   (ErrNew ''there isn't any etcd-proxy pods in target cluster'')),
            s\<lparr>trace := trace s @ concat (replicate (length ns) [EvNewForConfig, EvList])\<rparr>)"
proof (induction ns arbitrary: s errs)
  case Nil
  then show ?case by simp
next
  case (Cons n ns)
  have "etcdPodMap (s\<lparr>trace := trace s @ [EvNewForConfig, EvList]\<rparr>) = None"
    using Cons.prems by simp
  from Cons.IH [OF this] empty_inventory_find [OF Cons.prems assms]
  show ?case
    by (simp add: replicate_append_same)
qed

lemma empty_inventory_ffan:
  assumes "\<forall>h. NewForConfig E h = None" and "\<forall>h. ListPods E h = Inr []"
    and "etcdPodMap s = None" and "ns \<noteq> []"
  shows "forFirstAvailableNode E s ns =
           (Err (ErrWrap
              (ErrAggregate (replicate (length ns)
                 (ErrNew ''there isn't any etcd-proxy pods in target cluster'')))
              ''could not establish a connection to any etcd node''),
            s\<lparr>trace := trace s @
                 concat (replicate (Suc (length ns)) [EvNewForConfig, EvList])\<rparr>)"
proof -
  have "etcdPodMap (emit EvList (emit EvNewForConfig s)) = None"
    using assms(3) by simp
  from empty_inventory_loop [OF assms(1,2) this, of ns "[]"] assms show ?thesis
    by (simp add: forFirstAvailableNode_def Let_def NewAggregate_def emit_def)
qed

lemma empty_inventory_fl_loop:
  assumes "\<forall>h. NewForConfig E h = None" and "\<forall>h. ListPods E h = Inr []"
  shows "etcdPodMap s = None \<Longrightarrow>
         forLeader_loop E s ns nodes errs =
           (Inl (errs @ replicate (length ns)
                   (ErrAggregate
                      [ErrWrap
                         (ErrAggregate
                            [ErrNew ''there isn't any etcd-proxy pods in target cluster''])
                         ''could not establish a connection to any etcd node'',
                       ErrEtcdNodeConnection])),
            s\<lparr>trace := trace s @
                 concat (replicate (2 * length ns) [EvNewForConfig, EvList])\<rparr>)"
proof (induction ns arbitrary: s errs)
  case Nil
  then show ?case by simp
next
  case (Cons n ns)
  have g: "getLeaderClient E s n nodes =
      (Err (ErrAggregate
              [ErrWrap
                 (ErrAggregate [ErrNew ''there isn't any etcd-proxy pods in target cluster''])
                 ''could not establish a connection to any etcd node'',
               ErrEtcdNodeConnection]),
       s\<lparr>trace := trace s @ [EvNewForConfig, EvList, EvNewForConfig, EvList]\<rparr>)"
    using empty_inventory_ffan [OF assms Cons.prems, of "[n]"]
    by (simp add: getLeaderClient_def NewAggregate_def)
  have "etcdPodMap (s\<lparr>trace := trace s @ [EvNewForConfig, EvList, EvNewForConfig, EvList]\<rparr>)
      = None"
    using Cons.prems by simp
  from Cons.IH [OF this] g show ?case
    by (simp add: replicate_append_same)
qed

text \<open>
  C5, for an inventory that stays empty. On a generator whose map is not yet built, with a clientset that can be
  constructed and answers every listing with the empty list, \<open>forFirstAvailableNode\<close> on
  a non-empty list lists once for itself and once more for each candidate; each candidate
  records its own inventory error, and the call returns them in the aggregate labelled
  "could not establish a connection to any etcd node". \<open>forLeader\<close> classifies that failure
  as retryable for every candidate and returns the aggregate labelled "could not establish
  a connection to the etcd leader". Neither call reaches the client factory, a membership
  query or a close.
\<close>

theorem C5_empty_inventory:
  assumes fresh: "etcdPodMap s = None"
    and nfc: "\<forall>h. NewForConfig E h = None"
    and empty: "\<forall>h. ListPods E h = Inr []"
    and ne: "ns \<noteq> []"
  shows "forFirstAvailableNode E s ns =
           (Err (ErrWrap
              (ErrAggregate (replicate (length ns)
                 (ErrNew ''there isn't any etcd-proxy pods in target cluster'')))
              ''could not establish a connection to any etcd node''),
            s\<lparr>trace := trace s @
                 concat (replicate (Suc (length ns)) [EvNewForConfig, EvList])\<rparr>)
       \<and> forLeader E s ns =
           (Err (ErrWrap
              (ErrAggregate (replicate (length ns)
                 (ErrAggregate
                    [ErrWrap
                       (ErrAggregate
                          [ErrNew ''there isn't any etcd-proxy pods in target cluster''])
                       ''could not establish a connection to any etcd node'',
                     ErrEtcdNodeConnection])))
              ''could not establish a connection to the etcd leader''),
            s\<lparr>trace := trace s @
                 concat (replicate (2 * length ns) [EvNewForConfig, EvList])\<rparr>)
       \<and> \<not> list_ex is_client_call (new_events s (snd (forFirstAvailableNode E s ns)))
       \<and> \<not> list_ex is_client_call (new_events s (snd (forLeader E s ns)))"
proof -
  have no_call: "\<not> list_ex is_client_call (concat (replicate k [EvNewForConfig, EvList]))" for k
    by (induction k) simp_all
  have a: "forFirstAvailableNode E s ns =
           (Err (ErrWrap
              (ErrAggregate (replicate (length ns)
                 (ErrNew ''there isn't any etcd-proxy pods in target cluster'')))
              ''could not establish a connection to any etcd node''),
            s\<lparr>trace := trace s @
                 concat (replicate (Suc (length ns)) [EvNewForConfig, EvList])\<rparr>)"
    using empty_inventory_ffan [OF nfc empty fresh ne] .
  have b: "forLeader E s ns =
           (Err (ErrWrap
              (ErrAggregate (replicate (length ns)
                 (ErrAggregate
                    [ErrWrap
                       (ErrAggregate
                          [ErrNew ''there isn't any etcd-proxy pods in target cluster''])
                       ''could not establish a connection to any etcd node'',
                     ErrEtcdNodeConnection])))
              ''could not establish a connection to the etcd leader''),
            s\<lparr>trace := trace s @
                 concat (replicate (2 * length ns) [EvNewForConfig, EvList])\<rparr>)"
    using empty_inventory_fl_loop [OF nfc empty fresh, of ns "set ns" "[]"] ne
    by (simp add: forLeader_def Let_def NewAggregate_def)
  have c: "\<not> list_ex is_client_call (new_events s (snd (forFirstAvailableNode E s ns)))"
    unfolding a new_events_def using no_call [of "Suc (length ns)"] by simp
  have d: "\<not> list_ex is_client_call (new_events s (snd (forLeader E s ns)))"
    unfolding b new_events_def using no_call [of "2 * length ns"] by simp
  from a b c d show ?thesis by blast
qed

theorem C5_empty_inventory_witness:
  "forFirstAvailableNode E3 s0 [''A'', ''B''] =
     (Err (ErrWrap
        (ErrAggregate
           [ErrNew ''there isn't any etcd-proxy pods in target cluster'',
            ErrNew ''there isn't any etcd-proxy pods in target cluster''])
        ''could not establish a connection to any etcd node''),
      \<lparr>etcdPodMap = None,
       trace = [EvNewForConfig, EvList, EvNewForConfig, EvList, EvNewForConfig, EvList]\<rparr>)
   \<and> trace (snd (forLeader E3 s0 [''A'', ''B''])) =
       [EvNewForConfig, EvList, EvNewForConfig, EvList,
        EvNewForConfig, EvList, EvNewForConfig, EvList]"
proof -
  have h1: "etcdPodMap s0 = None" by (simp add: s0_def)
  have h2: "\<forall>h. NewForConfig E3 h = None" by (simp add: E3_def E0_def)
  have h3: "\<forall>h. ListPods E3 h = Inr []" by (simp add: E3_def)
  have h4: "[''A'', ''B''] \<noteq> ([]::string list)" by simp
  have two: "replicate (length [''A'', ''B'']) x = [x, x]" for x :: err
    by (simp add: numeral_2_eq_2)
  have three: "concat (replicate (Suc (length [''A'', ''B''])) [EvNewForConfig, EvList]) =
      [EvNewForConfig, EvList, EvNewForConfig, EvList, EvNewForConfig, EvList]"
    by (simp add: numeral_2_eq_2)
  have four: "concat (replicate (2 * length [''A'', ''B'']) [EvNewForConfig, EvList]) =
      [EvNewForConfig, EvList, EvNewForConfig, EvList,
       EvNewForConfig, EvList, EvNewForConfig, EvList]"
    by (simp add: numeral_eq_Suc)
  from C5_empty_inventory [OF h1 h2 h3 h4] show ?thesis
    unfolding two three four by (simp add: s0_def)
qed

text \<open>
  The inventory error is neither fatal nor final. With no proxy pod at all, two candidates
  make the call list three times and return two recorded errors in an aggregate, not the
  inventory error itself. When pods appear after the second listing, the call that met the
  empty inventory on candidate A lists again for candidate B and returns a client.
\<close>

theorem C5_inventory_error_not_fatal_counterexample:
  "forFirstAvailableNode E3 s0 [''A'', ''B''] =
     (Err (ErrWrap
        (ErrAggregate
           [ErrNew ''there isn't any etcd-proxy pods in target cluster'',
            ErrNew ''there isn't any etcd-proxy pods in target cluster''])
        ''could not establish a connection to any etcd node''),
      \<lparr>etcdPodMap = None,
       trace = [EvNewForConfig, EvList, EvNewForConfig, EvList, EvNewForConfig, EvList]\<rparr>)
   \<and> forFirstAvailableNode E4 s0 [''A'', ''B''] =
     (Ok \<lparr>handle = 6, Endpoint = ''proxy-B'', LeaderID = 3\<rparr>,
      \<lparr>etcdPodMap = Some m0,
       trace = [EvNewForConfig, EvList, EvNewForConfig, EvList, EvNewForConfig, EvList,
                EvCreateClient ''proxy-B'' (Some 6)]\<rparr>)"
  by (simp add: forFirstAvailableNode_def findEtcdProxyPod_def lookupPod_def buildEtcdMap_def
      NewAggregate_def E3_def E4_def E0_def s0_def m0_def emit_def Let_def)

section \<open>Opened and closed clients\<close>

lemma accounted_append:
  assumes "accounted k evs1 {}" and "accounted (k + length evs1) evs2 R"
  shows "accounted k (evs1 @ evs2) R"
proof -
  from assms have disj: "set (opened evs1) \<inter> set (opened evs2) = {}"
    by (fastforce simp: accounted_def)
  from assms have c1: "set (closed evs1) = set (opened evs1)"
    and c2: "set (closed evs2) \<subseteq> set (opened evs2)"
    by (auto simp: accounted_def)
  from disj c1 c2 have disjc: "set (closed evs1) \<inter> set (closed evs2) = {}"
    by auto
  have bounds: "\<forall>h \<in> set (opened (evs1 @ evs2)). k \<le> h \<and> h < k + length (evs1 @ evs2)"
    using assms by (fastforce simp: accounted_def)
  have sets: "set (closed (evs1 @ evs2)) = set (opened (evs1 @ evs2)) - R"
    using assms disj by (auto simp: accounted_def)
  have sub: "R \<subseteq> set (opened (evs1 @ evs2))"
    using assms by (auto simp: accounted_def)
  have d1: "distinct (opened (evs1 @ evs2))"
    using assms disj by (simp add: accounted_def)
  have d2: "distinct (closed (evs1 @ evs2))"
    using assms disjc by (simp add: accounted_def)
  from bounds sets sub d1 d2 show ?thesis
    unfolding accounted_def by blast
qed

lemma find_tr:
  "\<exists>evs. trace (snd (findEtcdProxyPod E s n)) = trace s @ evs \<and>
         opened evs = [] \<and> closed evs = []"
  by (simp add: findEtcdProxyPod_def Let_def split: option.splits sum.splits)

lemma loop_tr:
  "\<exists>evs. trace (snd (forFirstAvailableNode_loop E s ns errs)) = trace s @ evs \<and>
         closed evs = [] \<and>
         opened evs = (case fst (forFirstAvailableNode_loop E s ns errs) of
                         Inr cl \<Rightarrow> [handle cl] | Inl x \<Rightarrow> []) \<and>
         (\<forall>h \<in> set (opened evs). length (trace s) \<le> h \<and> h < length (trace s) + length evs)"
proof (induction ns arbitrary: s errs)
  case Nil
  then show ?case by simp
next
  case (Cons n ns)
  obtain r t where f: "findEtcdProxyPod E s n = (r, t)"
    by (cases "findEtcdProxyPod E s n")
  from find_tr [of E s n] f obtain evs0 where
    t: "trace t = trace s @ evs0" "opened evs0 = []" "closed evs0 = []"
    by auto
  show ?case
  proof (cases r)
    case (Inl e)
    from Cons.IH [of t "errs @ [e]"] obtain evs where
      ih: "trace (snd (forFirstAvailableNode_loop E t ns (errs @ [e]))) = trace t @ evs"
        "closed evs = []"
        "opened evs = (case fst (forFirstAvailableNode_loop E t ns (errs @ [e])) of
                         Inr cl \<Rightarrow> [handle cl] | Inl x \<Rightarrow> [])"
        "\<forall>h \<in> set (opened evs). length (trace t) \<le> h \<and> h < length (trace t) + length evs"
      by blast
    have "trace (snd (forFirstAvailableNode_loop E s (n # ns) errs)) = trace s @ (evs0 @ evs) \<and>
         closed (evs0 @ evs) = [] \<and>
         opened (evs0 @ evs) = (case fst (forFirstAvailableNode_loop E s (n # ns) errs) of
                         Inr cl \<Rightarrow> [handle cl] | Inl x \<Rightarrow> []) \<and>
         (\<forall>h \<in> set (opened (evs0 @ evs)).
            length (trace s) \<le> h \<and> h < length (trace s) + length (evs0 @ evs))"
      using f Inl t ih by auto
    then show ?thesis by blast
  next
    case (Inr podName)
    show ?thesis
    proof (cases "createClient E (trace t) podName")
      case (Inl e)
      let ?u = "emit (EvCreateClient podName None) t"
      from Cons.IH [of ?u "errs @ [e]"] obtain evs where
        ih: "trace (snd (forFirstAvailableNode_loop E ?u ns (errs @ [e]))) = trace ?u @ evs"
          "closed evs = []"
          "opened evs = (case fst (forFirstAvailableNode_loop E ?u ns (errs @ [e])) of
                           Inr cl \<Rightarrow> [handle cl] | Inl x \<Rightarrow> [])"
          "\<forall>h \<in> set (opened evs). length (trace ?u) \<le> h \<and> h < length (trace ?u) + length evs"
        by blast
      let ?evs = "evs0 @ EvCreateClient podName None # evs"
      have "trace (snd (forFirstAvailableNode_loop E s (n # ns) errs)) = trace s @ ?evs \<and>
         closed ?evs = [] \<and>
         opened ?evs = (case fst (forFirstAvailableNode_loop E s (n # ns) errs) of
                         Inr cl \<Rightarrow> [handle cl] | Inl x \<Rightarrow> []) \<and>
         (\<forall>h \<in> set (opened ?evs).
            length (trace s) \<le> h \<and> h < length (trace s) + length ?evs)"
        using f Inr Inl t ih by auto
      then show ?thesis by blast
    next
      case (Inr leader)
      let ?evs = "evs0 @ [EvCreateClient podName (Some (length (trace t)))]"
      have "trace (snd (forFirstAvailableNode_loop E s (n # ns) errs)) = trace s @ ?evs \<and>
         closed ?evs = [] \<and>
         opened ?evs = (case fst (forFirstAvailableNode_loop E s (n # ns) errs) of
                         Inr cl \<Rightarrow> [handle cl] | Inl x \<Rightarrow> []) \<and>
         (\<forall>h \<in> set (opened ?evs).
            length (trace s) \<le> h \<and> h < length (trace s) + length ?evs)"
        using f \<open>r = Inr podName\<close> Inr t by auto
      then show ?thesis by blast
    qed
  qed
qed

lemma ffan_tr:
  "\<exists>evs. trace (snd (forFirstAvailableNode E s ns)) = trace s @ evs \<and>
         closed evs = [] \<and>
         opened evs = (case fst (forFirstAvailableNode E s ns) of
                         Ok cl \<Rightarrow> [handle cl] | Err e \<Rightarrow> [] | NilNil \<Rightarrow> [] | Panic \<Rightarrow> []) \<and>
         (\<forall>h \<in> set (opened evs). length (trace s) \<le> h \<and> h < length (trace s) + length evs)"
proof (cases "ns = [] \<or> NewForConfig E (trace s) \<noteq> None \<or>
              isl (ListPods E (trace s @ [EvNewForConfig]))")
  case True
  then show ?thesis
    by (auto simp: forFirstAvailableNode_def Let_def isl_def split: option.splits sum.splits)
next
  case False
  let ?s2 = "emit EvList (emit EvNewForConfig s)"
  from loop_tr [of E ?s2 ns "[]"] obtain evs where
    lo: "trace (snd (forFirstAvailableNode_loop E ?s2 ns [])) = trace ?s2 @ evs"
      "closed evs = []"
      "opened evs = (case fst (forFirstAvailableNode_loop E ?s2 ns []) of
                       Inr cl \<Rightarrow> [handle cl] | Inl x \<Rightarrow> [])"
      "\<forall>h \<in> set (opened evs). length (trace ?s2) \<le> h \<and> h < length (trace ?s2) + length evs"
    by blast
  let ?evs = "EvNewForConfig # EvList # evs"
  have "trace (snd (forFirstAvailableNode E s ns)) = trace s @ ?evs \<and>
         closed ?evs = [] \<and>
         opened ?evs = (case fst (forFirstAvailableNode E s ns) of
                         Ok cl \<Rightarrow> [handle cl] | Err e \<Rightarrow> [] | NilNil \<Rightarrow> [] | Panic \<Rightarrow> []) \<and>
         (\<forall>h \<in> set (opened ?evs). length (trace s) \<le> h \<and> h < length (trace s) + length ?evs)"
    using False lo
    by (auto simp: forFirstAvailableNode_def Let_def case_prod_beta NewAggregate_def isl_def
        split: option.splits sum.splits)
  then show ?thesis by blast
qed


lemma glc_no_connect:
  assumes "forFirstAvailableNode E s [n] = (r1, t1)" and "\<forall>tmp. r1 \<noteq> Ok tmp"
  shows "snd (getLeaderClient E s n nodes) = t1 \<and>
         returned (fst (getLeaderClient E s n nodes)) = {}"
  using assms by (cases r1) (simp_all add: getLeaderClient_def NewAggregate_def)

lemma glc_connected:
  assumes "forFirstAvailableNode E s [n] = (Ok tmp, t1)"
  shows "(getLeaderClient E s n nodes =
            (fst (getLeaderClient E s n nodes),
             emit (EvClose (handle tmp)) (emit (EvMembers (handle tmp)) t1)) \<and>
          returned (fst (getLeaderClient E s n nodes)) = {})
       \<or> (\<exists>ms lm. Members E (trace t1) tmp = Inr ms \<and>
             find (\<lambda>m. member_ID m = LeaderID tmp) ms = Some lm \<and>
             NodeNameFromMember E lm \<in> nodes \<and>
             getLeaderClient E s n nodes =
               (fst (forFirstAvailableNode E (emit (EvMembers (handle tmp)) t1)
                       [NodeNameFromMember E lm]),
                emit (EvClose (handle tmp))
                  (snd (forFirstAvailableNode E (emit (EvMembers (handle tmp)) t1)
                          [NodeNameFromMember E lm]))))"
  using assms
  by (simp add: getLeaderClient_def NewAggregate_def Let_def case_prod_beta
      split: sum.splits option.splits)

lemma glc_tr:
  "\<exists>evs. trace (snd (getLeaderClient E s n nodes)) = trace s @ evs \<and>
         accounted (length (trace s)) evs (returned (fst (getLeaderClient E s n nodes))) \<and>
         closed evs = (case fst (forFirstAvailableNode E s [n]) of
                         Ok tmp \<Rightarrow> [handle tmp] | Err e \<Rightarrow> [] | NilNil \<Rightarrow> [] | Panic \<Rightarrow> [])"
proof -
  obtain r1 t1 where f1: "forFirstAvailableNode E s [n] = (r1, t1)"
    by (cases "forFirstAvailableNode E s [n]")
  from ffan_tr [of E s "[n]"] f1 obtain evsA where
    a: "trace t1 = trace s @ evsA" "closed evsA = []"
      "opened evsA = (case r1 of Ok cl \<Rightarrow> [handle cl] | Err e \<Rightarrow> [] | NilNil \<Rightarrow> [] | Panic \<Rightarrow> [])"
      "\<forall>h \<in> set (opened evsA). length (trace s) \<le> h \<and> h < length (trace s) + length evsA"
    by auto
  show ?thesis
  proof (cases "\<exists>tmp. r1 = Ok tmp")
    case False
    then have no: "\<forall>tmp. r1 \<noteq> Ok tmp" by simp
    from glc_no_connect [OF f1 no, of nodes] a f1 no
    have "trace (snd (getLeaderClient E s n nodes)) = trace s @ evsA \<and>
         accounted (length (trace s)) evsA (returned (fst (getLeaderClient E s n nodes))) \<and>
         closed evsA = (case fst (forFirstAvailableNode E s [n]) of
                         Ok tmp \<Rightarrow> [handle tmp] | Err e \<Rightarrow> [] | NilNil \<Rightarrow> [] | Panic \<Rightarrow> [])"
      by (cases r1) (simp_all add: accounted_def)
    then show ?thesis by blast
  next
    case True
    then obtain tmp where r1: "r1 = Ok tmp" by blast
    let ?h = "handle tmp"
    from a r1 have oa: "opened evsA = [?h]"
      and ha: "length (trace s) \<le> ?h" "?h < length (trace s) + length evsA"
      by simp_all
    let ?s2 = "emit (EvMembers ?h) t1"
    from glc_connected [OF f1 [unfolded r1], of nodes] show ?thesis
    proof
      assume short: "getLeaderClient E s n nodes =
            (fst (getLeaderClient E s n nodes), emit (EvClose ?h) ?s2) \<and>
          returned (fst (getLeaderClient E s n nodes)) = {}"
      let ?evs = "evsA @ [EvMembers ?h, EvClose ?h]"
      have tr: "trace (snd (getLeaderClient E s n nodes)) = trace s @ ?evs"
        using short a(1) by (metis append.assoc append_Cons append_Nil snd_conv trace_emit)
      have acc: "accounted (length (trace s)) ?evs (returned (fst (getLeaderClient E s n nodes)))"
        using short oa ha a(2) by (simp add: accounted_def)
      have cl: "closed ?evs = (case fst (forFirstAvailableNode E s [n]) of
                         Ok tmp \<Rightarrow> [handle tmp] | Err e \<Rightarrow> [] | NilNil \<Rightarrow> [] | Panic \<Rightarrow> [])"
        using f1 r1 a(2) by simp
      from tr acc cl show ?thesis by blast
    next
      assume "\<exists>ms lm. Members E (trace t1) tmp = Inr ms \<and>
             find (\<lambda>m. member_ID m = LeaderID tmp) ms = Some lm \<and>
             NodeNameFromMember E lm \<in> nodes \<and>
             getLeaderClient E s n nodes =
               (fst (forFirstAvailableNode E ?s2 [NodeNameFromMember E lm]),
                emit (EvClose ?h) (snd (forFirstAvailableNode E ?s2 [NodeNameFromMember E lm])))"
      then obtain lm where
        g: "getLeaderClient E s n nodes =
               (fst (forFirstAvailableNode E ?s2 [NodeNameFromMember E lm]),
                emit (EvClose ?h) (snd (forFirstAvailableNode E ?s2 [NodeNameFromMember E lm])))"
        by blast
      let ?r2 = "fst (forFirstAvailableNode E ?s2 [NodeNameFromMember E lm])"
      let ?t3 = "snd (forFirstAvailableNode E ?s2 [NodeNameFromMember E lm])"
      from ffan_tr [of E ?s2 "[NodeNameFromMember E lm]"] obtain evsB where
        b: "trace ?t3 = trace ?s2 @ evsB" "closed evsB = []"
          "opened evsB = (case ?r2 of Ok cl \<Rightarrow> [handle cl] | Err e \<Rightarrow> [] | NilNil \<Rightarrow> []
                           | Panic \<Rightarrow> [])"
          "\<forall>h \<in> set (opened evsB). length (trace ?s2) \<le> h \<and> h < length (trace ?s2) + length evsB"
        by blast
      let ?evs = "evsA @ EvMembers ?h # evsB @ [EvClose ?h]"
      have tr: "trace (snd (getLeaderClient E s n nodes)) = trace s @ ?evs"
        using g a(1) b(1) by simp
      have len2: "length (trace ?s2) = length (trace s) + length evsA + 1"
        using a(1) by simp
      have acc: "accounted (length (trace s)) ?evs (returned (fst (getLeaderClient E s n nodes)))"
      proof (cases ?r2)
        case (Ok cl)
        with b(3,4) len2 have "opened evsB = [handle cl]"
          and "length (trace s) + length evsA + 1 \<le> handle cl"
          and "handle cl < length (trace s) + length evsA + 1 + length evsB"
          by simp_all
        with g Ok oa ha a(2) b(2) show ?thesis
          by (auto simp: accounted_def)
      next
        case (Err e)
        with g oa ha a(2) b(2,3) show ?thesis by (auto simp: accounted_def)
      next
        case NilNil
        with g oa ha a(2) b(2,3) show ?thesis by (auto simp: accounted_def)
      next
        case Panic
        with g oa ha a(2) b(2,3) show ?thesis by (auto simp: accounted_def)
      qed
      have cl: "closed ?evs = (case fst (forFirstAvailableNode E s [n]) of
                         Ok tmp \<Rightarrow> [handle tmp] | Err e \<Rightarrow> [] | NilNil \<Rightarrow> [] | Panic \<Rightarrow> [])"
        using f1 r1 a(2) b(2) by simp
      from tr acc cl show ?thesis by blast
    qed
  qed
qed

lemma fl_loop_tr:
  "\<exists>evs. trace (snd (forLeader_loop E s ns nodes errs)) = trace s @ evs \<and>
         accounted (length (trace s)) evs
           (case fst (forLeader_loop E s ns nodes errs) of
              Inl x \<Rightarrow> {} | Inr r \<Rightarrow> returned r)"
proof (induction ns arbitrary: s errs)
  case Nil
  have "trace (snd (forLeader_loop E s [] nodes errs)) = trace s @ [] \<and>
        accounted (length (trace s)) []
          (case fst (forLeader_loop E s [] nodes errs) of Inl x \<Rightarrow> {} | Inr r \<Rightarrow> returned r)"
    by (simp add: accounted_def)
  then show ?case by blast
next
  case (Cons n ns)
  obtain r t where g: "getLeaderClient E s n nodes = (r, t)"
    by (cases "getLeaderClient E s n nodes")
  from glc_tr [of E s n nodes] g obtain evs1 where
    one: "trace t = trace s @ evs1" "accounted (length (trace s)) evs1 (returned r)"
    by auto
  show ?case
  proof (cases "\<exists>e. r = Err e \<and> errors_Is_errEtcdNodeConnection e")
    case True
    then obtain e where e: "r = Err e" "errors_Is_errEtcdNodeConnection e" by blast
    from Cons.IH [of t "errs @ [e]"] obtain evs2 where
      two: "trace (snd (forLeader_loop E t ns nodes (errs @ [e]))) = trace t @ evs2"
        "accounted (length (trace t)) evs2
           (case fst (forLeader_loop E t ns nodes (errs @ [e])) of
              Inl x \<Rightarrow> {} | Inr r \<Rightarrow> returned r)"
      by blast
    have step: "forLeader_loop E s (n # ns) nodes errs = forLeader_loop E t ns nodes (errs @ [e])"
      using g e by simp
    from one(2) e have acc1: "accounted (length (trace s)) evs1 {}" by simp
    from two(2) one(1) have acc2: "accounted (length (trace s) + length evs1) evs2
           (case fst (forLeader_loop E t ns nodes (errs @ [e])) of
              Inl x \<Rightarrow> {} | Inr r \<Rightarrow> returned r)"
      by simp
    have "trace (snd (forLeader_loop E s (n # ns) nodes errs)) = trace s @ (evs1 @ evs2) \<and>
         accounted (length (trace s)) (evs1 @ evs2)
           (case fst (forLeader_loop E s (n # ns) nodes errs) of
              Inl x \<Rightarrow> {} | Inr r \<Rightarrow> returned r)"
      using accounted_append [OF acc1 acc2] two(1) one(1) by (simp only: step append_assoc)
    then show ?thesis by blast
  next
    case False
    then have "forLeader_loop E s (n # ns) nodes errs = (Inr r, t)"
      using g by (cases r) auto
    with one have "trace (snd (forLeader_loop E s (n # ns) nodes errs)) = trace s @ evs1 \<and>
         accounted (length (trace s)) evs1
           (case fst (forLeader_loop E s (n # ns) nodes errs) of
              Inl x \<Rightarrow> {} | Inr r \<Rightarrow> returned r)"
      by simp
    then show ?thesis by blast
  qed
qed

lemma fl_tr:
  "\<exists>evs. trace (snd (forLeader E s ns)) = trace s @ evs \<and>
         accounted (length (trace s)) evs (returned (fst (forLeader E s ns)))"
proof (cases "ns = []")
  case True
  have "trace (snd (forLeader E s ns)) = trace s @ [] \<and>
        accounted (length (trace s)) [] (returned (fst (forLeader E s ns)))"
    using True by (simp add: forLeader_def accounted_def)
  then show ?thesis by blast
next
  case False
  from fl_loop_tr [of E s ns "set ns" "[]"] obtain evs where
    l: "trace (snd (forLeader_loop E s ns (set ns) [])) = trace s @ evs"
      "accounted (length (trace s)) evs
           (case fst (forLeader_loop E s ns (set ns) []) of
              Inl x \<Rightarrow> {} | Inr r \<Rightarrow> returned r)"
    by blast
  have "trace (snd (forLeader E s ns)) = trace s @ evs \<and>
         accounted (length (trace s)) evs (returned (fst (forLeader E s ns)))"
  proof (cases "fst (forLeader_loop E s ns (set ns) [])")
    case (Inl errs)
    have "returned (return_err (errors_Wrap (NewAggregate errs)
            ''could not establish a connection to the etcd leader'')) = {}"
      by (simp add: NewAggregate_def)
    with Inl l False show ?thesis
      by (simp add: forLeader_def Let_def case_prod_beta)
  next
    case (Inr r)
    with l False show ?thesis
      by (simp add: forLeader_def Let_def case_prod_beta)
  qed
  then show ?thesis by blast
qed


lemma ffan_handle_bounds:
  assumes "forFirstAvailableNode E s ns = (Ok cl, s')"
  shows "length (trace s) \<le> handle cl \<and> handle cl < length (trace s')"
  using ffan_tr [of E s ns] assms by auto

lemma new_events_append: "trace s' = trace s @ evs \<Longrightarrow> new_events s s' = evs"
  by (simp add: new_events_def)

text \<open>
  C4. Over the events of a whole \<open>forLeader\<close> call, no handle is closed twice, and the
  closed handles are exactly the opened ones other than the handle returned to the caller,
  which is among the opened ones and stays open: every temporary client is closed exactly
  once on every way out, and nothing else is. Within one \<open>getLeaderClient\<close>, the only close
  is that of the temporary client, once, whenever the first dial returned one, and there is
  none otherwise. When \<open>getLeaderClient\<close> returns a client, it is the one returned by the
  second \<open>forFirstAvailableNode\<close> call, on the leader's node, made after the membership
  query; its handle is later than the temporary one, which is closed last.
\<close>

theorem C4_temporary_client_closed_once:
  "trace (snd (forLeader E s ns)) = trace s @ new_events s (snd (forLeader E s ns))
   \<and> distinct (closed (new_events s (snd (forLeader E s ns))))
   \<and> set (closed (new_events s (snd (forLeader E s ns)))) =
       set (opened (new_events s (snd (forLeader E s ns)))) - returned (fst (forLeader E s ns))
   \<and> returned (fst (forLeader E s ns)) \<subseteq> set (opened (new_events s (snd (forLeader E s ns))))
   \<and> closed (new_events s (snd (getLeaderClient E s n nodes))) =
       (case fst (forFirstAvailableNode E s [n]) of
          Ok tmp \<Rightarrow> [handle tmp] | Err e \<Rightarrow> [] | NilNil \<Rightarrow> [] | Panic \<Rightarrow> [])
   \<and> (getLeaderClient E s n nodes = (Ok cl, s') \<longrightarrow>
       (\<exists>tmp t1 ms lm t3.
          forFirstAvailableNode E s [n] = (Ok tmp, t1) \<and>
          Members E (trace t1) tmp = Inr ms \<and>
          find (\<lambda>m. member_ID m = LeaderID tmp) ms = Some lm \<and>
          NodeNameFromMember E lm \<in> nodes \<and>
          forFirstAvailableNode E (emit (EvMembers (handle tmp)) t1) [NodeNameFromMember E lm] =
            (Ok cl, t3) \<and>
          s' = emit (EvClose (handle tmp)) t3 \<and>
          handle tmp < handle cl))"
proof -
  from fl_tr [of E s ns] obtain evs where
    fl: "trace (snd (forLeader E s ns)) = trace s @ evs"
      "accounted (length (trace s)) evs (returned (fst (forLeader E s ns)))"
    by blast
  from new_events_append [OF fl(1)] have ne: "new_events s (snd (forLeader E s ns)) = evs" .
  have part1: "trace (snd (forLeader E s ns)) = trace s @ new_events s (snd (forLeader E s ns))
   \<and> distinct (closed (new_events s (snd (forLeader E s ns))))
   \<and> set (closed (new_events s (snd (forLeader E s ns)))) =
       set (opened (new_events s (snd (forLeader E s ns)))) - returned (fst (forLeader E s ns))
   \<and> returned (fst (forLeader E s ns)) \<subseteq> set (opened (new_events s (snd (forLeader E s ns))))"
    using fl unfolding ne accounted_def by blast
  from glc_tr [of E s n nodes] obtain evs' where
    g: "trace (snd (getLeaderClient E s n nodes)) = trace s @ evs'"
      "closed evs' = (case fst (forFirstAvailableNode E s [n]) of
          Ok tmp \<Rightarrow> [handle tmp] | Err e \<Rightarrow> [] | NilNil \<Rightarrow> [] | Panic \<Rightarrow> [])"
    by blast
  have part2: "closed (new_events s (snd (getLeaderClient E s n nodes))) =
       (case fst (forFirstAvailableNode E s [n]) of
          Ok tmp \<Rightarrow> [handle tmp] | Err e \<Rightarrow> [] | NilNil \<Rightarrow> [] | Panic \<Rightarrow> [])"
    using g(2) unfolding new_events_append [OF g(1)] .
  have part3: "getLeaderClient E s n nodes = (Ok cl, s') \<longrightarrow>
       (\<exists>tmp t1 ms lm t3.
          forFirstAvailableNode E s [n] = (Ok tmp, t1) \<and>
          Members E (trace t1) tmp = Inr ms \<and>
          find (\<lambda>m. member_ID m = LeaderID tmp) ms = Some lm \<and>
          NodeNameFromMember E lm \<in> nodes \<and>
          forFirstAvailableNode E (emit (EvMembers (handle tmp)) t1) [NodeNameFromMember E lm] =
            (Ok cl, t3) \<and>
          s' = emit (EvClose (handle tmp)) t3 \<and>
          handle tmp < handle cl)"
  proof
    assume ok: "getLeaderClient E s n nodes = (Ok cl, s')"
    obtain r1 t1 where f1: "forFirstAvailableNode E s [n] = (r1, t1)"
      by (cases "forFirstAvailableNode E s [n]")
    have "\<exists>tmp. r1 = Ok tmp"
    proof (rule ccontr)
      assume "\<not> (\<exists>tmp. r1 = Ok tmp)"
      then have "\<forall>tmp. r1 \<noteq> Ok tmp" by simp
      from glc_no_connect [OF f1 this, of nodes] ok show False by simp
    qed
    then obtain tmp where f1': "forFirstAvailableNode E s [n] = (Ok tmp, t1)"
      using f1 by blast
    from glc_connected [OF f1', of nodes] ok obtain ms lm where
      second: "Members E (trace t1) tmp = Inr ms"
        "find (\<lambda>m. member_ID m = LeaderID tmp) ms = Some lm"
        "NodeNameFromMember E lm \<in> nodes"
        "getLeaderClient E s n nodes =
               (fst (forFirstAvailableNode E (emit (EvMembers (handle tmp)) t1)
                       [NodeNameFromMember E lm]),
                emit (EvClose (handle tmp))
                  (snd (forFirstAvailableNode E (emit (EvMembers (handle tmp)) t1)
                          [NodeNameFromMember E lm])))"
      by auto
    let ?t3 = "snd (forFirstAvailableNode E (emit (EvMembers (handle tmp)) t1)
                      [NodeNameFromMember E lm])"
    from second(4) ok have
      redial: "forFirstAvailableNode E (emit (EvMembers (handle tmp)) t1)
                 [NodeNameFromMember E lm] = (Ok cl, ?t3)"
      and s': "s' = emit (EvClose (handle tmp)) ?t3"
      by (simp_all add: prod_eq_iff)
    from ffan_handle_bounds [OF f1'] ffan_handle_bounds [OF redial]
    have "handle tmp < handle cl" by simp
    with f1' second(1,2,3) redial s' show "\<exists>tmp t1 ms lm t3.
          forFirstAvailableNode E s [n] = (Ok tmp, t1) \<and>
          Members E (trace t1) tmp = Inr ms \<and>
          find (\<lambda>m. member_ID m = LeaderID tmp) ms = Some lm \<and>
          NodeNameFromMember E lm \<in> nodes \<and>
          forFirstAvailableNode E (emit (EvMembers (handle tmp)) t1) [NodeNameFromMember E lm] =
            (Ok cl, t3) \<and>
          s' = emit (EvClose (handle tmp)) t3 \<and>
          handle tmp < handle cl"
      by blast
  qed
  from part1 part2 part3 show ?thesis by blast
qed

lemma run_fl_ABC:
  "forLeader E0 s0 [''A'', ''B'', ''C''] =
     (Ok \<lparr>handle = 15, Endpoint = ''proxy-C'', LeaderID = 3\<rparr>,
      \<lparr>etcdPodMap = Some m0,
       trace = [EvNewForConfig, EvList, EvNewForConfig, EvList,
                EvNewForConfig, EvList, EvCreateClient ''proxy-B'' (Some 6),
                EvMembers 6, EvClose 6,
                EvNewForConfig, EvList, EvCreateClient ''proxy-C'' (Some 11), EvMembers 11,
                EvNewForConfig, EvList, EvCreateClient ''proxy-C'' (Some 15),
                EvClose 11]\<rparr>)"
  by (simp add: forLeader_def getLeaderClient_def forFirstAvailableNode_def
      findEtcdProxyPod_def lookupPod_def buildEtcdMap_def NewAggregate_def
      E0_def s0_def m0_def emit_def Let_def)

lemma run_glc_C:
  "getLeaderClient E0 s1 ''C'' {''C''} =
     (Ok \<lparr>handle = 6, Endpoint = ''proxy-C'', LeaderID = 3\<rparr>,
      \<lparr>etcdPodMap = Some m0,
       trace = [EvNewForConfig, EvList, EvCreateClient ''proxy-C'' (Some 2), EvMembers 2,
                EvNewForConfig, EvList, EvCreateClient ''proxy-C'' (Some 6),
                EvClose 2]\<rparr>)"
  by (simp add: getLeaderClient_def forFirstAvailableNode_def
      findEtcdProxyPod_def lookupPod_def NewAggregate_def
      E0_def s1_def m0_def emit_def Let_def)

theorem C4_temporary_client_closed_once_witness:
  "closed (new_events s0 (snd (forLeader E0 s0 [''A'', ''B'', ''C'']))) = [6, 11]
   \<and> opened (new_events s0 (snd (forLeader E0 s0 [''A'', ''B'', ''C'']))) = [6, 11, 15]
   \<and> returned (fst (forLeader E0 s0 [''A'', ''B'', ''C''])) = {15}
   \<and> set [6, 11] = set [6, 11, 15] - {15::nat}
   \<and> (\<exists>tmp t1 ms lm t3.
          forFirstAvailableNode E0 s1 [''C''] = (Ok tmp, t1) \<and>
          Members E0 (trace t1) tmp = Inr ms \<and>
          find (\<lambda>m. member_ID m = LeaderID tmp) ms = Some lm \<and>
          NodeNameFromMember E0 lm \<in> {''C''} \<and>
          forFirstAvailableNode E0 (emit (EvMembers (handle tmp)) t1)
            [NodeNameFromMember E0 lm] =
            (Ok \<lparr>handle = 6, Endpoint = ''proxy-C'', LeaderID = 3\<rparr>, t3) \<and>
          \<lparr>etcdPodMap = Some m0,
           trace = [EvNewForConfig, EvList, EvCreateClient ''proxy-C'' (Some 2), EvMembers 2,
                    EvNewForConfig, EvList, EvCreateClient ''proxy-C'' (Some 6),
                    EvClose 2]\<rparr> = emit (EvClose (handle tmp)) t3 \<and>
          handle tmp < handle \<lparr>handle = 6, Endpoint = ''proxy-C'', LeaderID = 3\<rparr>)"
proof -
  have ts: "trace s0 = []"
    by (simp add: s0_def)
  have a: "closed (new_events s0 (snd (forLeader E0 s0 [''A'', ''B'', ''C'']))) = [6, 11]"
    and b: "opened (new_events s0 (snd (forLeader E0 s0 [''A'', ''B'', ''C'']))) = [6, 11, 15]"
    and c: "returned (fst (forLeader E0 s0 [''A'', ''B'', ''C''])) = {15}"
    by (simp_all add: run_fl_ABC new_events_def ts)
  from C4_temporary_client_closed_once [of E0 s0 "[''A'', ''B'', ''C'']" "''C''" "{''C''}"]
  have d: "set (closed (new_events s0 (snd (forLeader E0 s0 [''A'', ''B'', ''C''])))) =
       set (opened (new_events s0 (snd (forLeader E0 s0 [''A'', ''B'', ''C''])))) -
       returned (fst (forLeader E0 s0 [''A'', ''B'', ''C'']))"
    by blast
  from C4_temporary_client_closed_once [of E0 s1 "[]" "''C''" "{''C''}"
      "\<lparr>handle = 6, Endpoint = ''proxy-C'', LeaderID = 3\<rparr>"] run_glc_C
  have e: "\<exists>tmp t1 ms lm t3.
          forFirstAvailableNode E0 s1 [''C''] = (Ok tmp, t1) \<and>
          Members E0 (trace t1) tmp = Inr ms \<and>
          find (\<lambda>m. member_ID m = LeaderID tmp) ms = Some lm \<and>
          NodeNameFromMember E0 lm \<in> {''C''} \<and>
          forFirstAvailableNode E0 (emit (EvMembers (handle tmp)) t1)
            [NodeNameFromMember E0 lm] =
            (Ok \<lparr>handle = 6, Endpoint = ''proxy-C'', LeaderID = 3\<rparr>, t3) \<and>
          \<lparr>etcdPodMap = Some m0,
           trace = [EvNewForConfig, EvList, EvCreateClient ''proxy-C'' (Some 2), EvMembers 2,
                    EvNewForConfig, EvList, EvCreateClient ''proxy-C'' (Some 6),
                    EvClose 2]\<rparr> = emit (EvClose (handle tmp)) t3 \<and>
          handle tmp < handle \<lparr>handle = 6, Endpoint = ''proxy-C'', LeaderID = 3\<rparr>"
    by blast
  from d have d': "set [6, 11] = set [6, 11, 15] - {15::nat}"
    unfolding a b c .
  from a b c d' e show ?thesis by blast
qed

section \<open>The listing of forFirstAvailableNode\<close>

lemma find_grows: "length (trace s) \<le> length (trace (snd (findEtcdProxyPod E s n)))"
  using find_tr [of E s n] by auto

lemma find_relist:
  assumes "\<forall>h. length (trace s) \<le> length h \<longrightarrow> L h = ListPods E h"
  shows "findEtcdProxyPod (E\<lparr>ListPods := L\<rparr>) s n = findEtcdProxyPod E s n"
  using assms by (simp add: findEtcdProxyPod_def Let_def split: option.splits)

lemma loop_relist:
  "\<forall>h. length (trace s) \<le> length h \<longrightarrow> L h = ListPods E h \<Longrightarrow>
   forFirstAvailableNode_loop (E\<lparr>ListPods := L\<rparr>) s ns errs =
   forFirstAvailableNode_loop E s ns errs"
proof (induction ns arbitrary: s errs)
  case Nil
  then show ?case by simp
next
  case (Cons n ns)
  obtain r t where f: "findEtcdProxyPod E s n = (r, t)"
    by (cases "findEtcdProxyPod E s n")
  from find_grows [of s E n] f have grow: "length (trace s) \<le> length (trace t)"
    by simp
  with Cons.prems have t: "\<forall>h. length (trace t) \<le> length h \<longrightarrow> L h = ListPods E h"
    by simp
  have u: "\<forall>h. length (trace (emit ev t)) \<le> length h \<longrightarrow> L h = ListPods E h" for ev
    using t by simp
  show ?case
    using find_relist [OF Cons.prems, of n] f Cons.IH [OF t] Cons.IH [OF u]
    by (simp split: sum.splits)
qed

lemma ffan_discards_listing:
  assumes "NewForConfig E (trace s) = None"
    and "ListPods E (trace s @ [EvNewForConfig]) = Inr pods"
  shows "forFirstAvailableNode
           (E\<lparr>ListPods := (ListPods E)(trace s @ [EvNewForConfig] := Inr pods')\<rparr>) s ns =
         forFirstAvailableNode E s ns"
proof -
  let ?L = "(ListPods E)(trace s @ [EvNewForConfig] := Inr pods')"
  let ?s2 = "emit EvList (emit EvNewForConfig s)"
  have later: "\<forall>h. length (trace ?s2) \<le> length h \<longrightarrow> ?L h = ListPods E h"
    by auto
  have eq: "forFirstAvailableNode_loop (E\<lparr>ListPods := ?L\<rparr>) ?s2 ns [] =
      forFirstAvailableNode_loop E ?s2 ns []"
    using later by (rule loop_relist)
  show ?thesis
    using assms by (simp add: forFirstAvailableNode_def Let_def eq)
qed

lemma ffan_starts:
  assumes "ns \<noteq> []"
  shows "\<exists>evs. trace (snd (forFirstAvailableNode E s ns)) = trace s @ EvNewForConfig # evs \<and>
          (NewForConfig E (trace s) = None \<longrightarrow> (\<exists>evs'. evs = EvList # evs'))"
proof (cases "NewForConfig E (trace s) \<noteq> None \<or>
              isl (ListPods E (trace s @ [EvNewForConfig]))")
  case True
  with assms show ?thesis
    by (auto simp: forFirstAvailableNode_def Let_def isl_def split: option.splits sum.splits)
next
  case False
  from loop_tr [of E "emit EvList (emit EvNewForConfig s)" ns "[]"] obtain evs where
    "trace (snd (forFirstAvailableNode_loop E (emit EvList (emit EvNewForConfig s)) ns [])) =
       trace (emit EvList (emit EvNewForConfig s)) @ evs"
    by blast
  with False assms have
    "trace (snd (forFirstAvailableNode E s ns)) = trace s @ EvNewForConfig # EvList # evs"
    by (auto simp: forFirstAvailableNode_def Let_def case_prod_beta isl_def
        split: option.splits sum.splits)
  then show ?thesis by blast
qed

lemma glc_extends:
  "\<exists>evs. trace (snd (getLeaderClient E s n nodes)) =
          trace (snd (forFirstAvailableNode E s [n])) @ evs"
proof -
  obtain r1 t1 where f1: "forFirstAvailableNode E s [n] = (r1, t1)"
    by (cases "forFirstAvailableNode E s [n]")
  show ?thesis
  proof (cases "\<exists>tmp. r1 = Ok tmp")
    case False
    then have "\<forall>tmp. r1 \<noteq> Ok tmp" by simp
    from glc_no_connect [OF f1 this, of nodes] f1 show ?thesis by simp
  next
    case True
    then obtain tmp where r1: "r1 = Ok tmp" by blast
    from glc_connected [OF f1 [unfolded r1], of nodes] show ?thesis
    proof
      assume "getLeaderClient E s n nodes =
            (fst (getLeaderClient E s n nodes),
             emit (EvClose (handle tmp)) (emit (EvMembers (handle tmp)) t1)) \<and>
          returned (fst (getLeaderClient E s n nodes)) = {}"
      then have "trace (snd (getLeaderClient E s n nodes)) =
          trace t1 @ [EvMembers (handle tmp), EvClose (handle tmp)]"
        by (metis append.assoc append_Cons append_Nil snd_conv trace_emit)
      with f1 show ?thesis by simp
    next
      assume "\<exists>ms lm. Members E (trace t1) tmp = Inr ms \<and>
             find (\<lambda>m. member_ID m = LeaderID tmp) ms = Some lm \<and>
             NodeNameFromMember E lm \<in> nodes \<and>
             getLeaderClient E s n nodes =
               (fst (forFirstAvailableNode E (emit (EvMembers (handle tmp)) t1)
                       [NodeNameFromMember E lm]),
                emit (EvClose (handle tmp))
                  (snd (forFirstAvailableNode E (emit (EvMembers (handle tmp)) t1)
                          [NodeNameFromMember E lm])))"
      then obtain lm where g: "getLeaderClient E s n nodes =
               (fst (forFirstAvailableNode E (emit (EvMembers (handle tmp)) t1)
                       [NodeNameFromMember E lm]),
                emit (EvClose (handle tmp))
                  (snd (forFirstAvailableNode E (emit (EvMembers (handle tmp)) t1)
                          [NodeNameFromMember E lm])))"
        by blast
      from ffan_tr [of E "emit (EvMembers (handle tmp)) t1" "[NodeNameFromMember E lm]"]
      obtain evsB where
        "trace (snd (forFirstAvailableNode E (emit (EvMembers (handle tmp)) t1)
                       [NodeNameFromMember E lm])) =
           trace (emit (EvMembers (handle tmp)) t1) @ evsB"
        by blast
      with g f1 have "trace (snd (getLeaderClient E s n nodes)) =
          trace (snd (forFirstAvailableNode E s [n])) @
            (EvMembers (handle tmp) # evsB @ [EvClose (handle tmp)])"
        by simp
      then show ?thesis by blast
    qed
  qed
qed

lemma fl_loop_lists:
  assumes nfc: "\<forall>h. NewForConfig E h = None"
  shows "fst (forLeader_loop E s ns nodes errs) = Inl errs' \<Longrightarrow>
         length ns \<le> count_list (new_events s (snd (forLeader_loop E s ns nodes errs))) EvList"
proof (induction ns arbitrary: s errs)
  case Nil
  then show ?case by simp
next
  case (Cons n ns)
  obtain r t where g: "getLeaderClient E s n nodes = (r, t)"
    by (cases "getLeaderClient E s n nodes")
  from Cons.prems g obtain e where
    e: "r = Err e" "errors_Is_errEtcdNodeConnection e"
    by (cases r) (auto split: if_splits)
  have step: "forLeader_loop E s (n # ns) nodes errs = forLeader_loop E t ns nodes (errs @ [e])"
    using g e by simp
  from ffan_starts [of "[n]" E s] nfc obtain evs0 where
    "trace (snd (forFirstAvailableNode E s [n])) = trace s @ EvNewForConfig # EvList # evs0"
    by auto
  with glc_extends [of E s n nodes] g obtain evs1 where
    one: "trace t = trace s @ EvNewForConfig # EvList # evs1"
    by auto
  from fl_loop_tr [of E t ns nodes "errs @ [e]"] obtain evs2 where
    two: "trace (snd (forLeader_loop E t ns nodes (errs @ [e]))) = trace t @ evs2"
    by blast
  from Cons.prems step have "fst (forLeader_loop E t ns nodes (errs @ [e])) = Inl errs'"
    by simp
  from Cons.IH [OF this] two have ih: "length ns \<le> count_list evs2 EvList"
    by (simp add: new_events_def)
  have "new_events s (snd (forLeader_loop E s (n # ns) nodes errs)) =
      EvNewForConfig # EvList # evs1 @ evs2"
    using step one two by (simp add: new_events_def)
  with ih show ?case by simp
qed

text \<open>
  C10. On a non-empty candidate list, whatever the cached map is: if the clientset of
  \<open>forFirstAvailableNode\<close> cannot be constructed the call fails with that error, wrapped;
  if its listing fails the call fails with that error, wrapped; if the listing succeeds, the
  pods it returned do not matter, since any other answer at that point of the trace gives
  the same result and the same final state. The trace of every such call starts with the
  clientset construction, followed by the listing when the construction succeeded. So when
  the loop of \<open>forLeader\<close> runs out of candidates with a clientset that can always be
  constructed, it has listed at least once for each candidate.
\<close>

theorem C10_listing_repeated_and_discarded:
  "(ns \<noteq> [] \<and> NewForConfig E (trace s) = Some e \<longrightarrow>
      forFirstAvailableNode E s ns =
        (Err (ErrWrap e ''unable to create client to target cluster''),
         emit EvNewForConfig s))
   \<and> (ns \<noteq> [] \<and> NewForConfig E (trace s) = None \<and>
       ListPods E (trace s @ [EvNewForConfig]) = Inl e \<longrightarrow>
      forFirstAvailableNode E s ns =
        (Err (ErrWrap e ''unable to list etcd-proxy pods in target cluster''),
         emit EvList (emit EvNewForConfig s)))
   \<and> (NewForConfig E (trace s) = None \<and>
       ListPods E (trace s @ [EvNewForConfig]) = Inr pods \<longrightarrow>
      forFirstAvailableNode
        (E\<lparr>ListPods := (ListPods E)(trace s @ [EvNewForConfig] := Inr pods')\<rparr>) s ns =
      forFirstAvailableNode E s ns)
   \<and> (ns \<noteq> [] \<longrightarrow>
      (\<exists>evs. trace (snd (forFirstAvailableNode E s ns)) = trace s @ EvNewForConfig # evs \<and>
          (NewForConfig E (trace s) = None \<longrightarrow> (\<exists>evs'. evs = EvList # evs'))))
   \<and> ((\<forall>h. NewForConfig E h = None) \<and> fst (forLeader_loop E s ns nodes errs) = Inl errs' \<longrightarrow>
      length ns \<le> count_list (new_events s (snd (forLeader_loop E s ns nodes errs))) EvList)"
proof (intro conjI impI)
  assume "ns \<noteq> [] \<and> NewForConfig E (trace s) = Some e"
  then show "forFirstAvailableNode E s ns =
        (Err (ErrWrap e ''unable to create client to target cluster''),
         emit EvNewForConfig s)"
    by (simp add: forFirstAvailableNode_def)
next
  assume "ns \<noteq> [] \<and> NewForConfig E (trace s) = None \<and>
       ListPods E (trace s @ [EvNewForConfig]) = Inl e"
  then show "forFirstAvailableNode E s ns =
        (Err (ErrWrap e ''unable to list etcd-proxy pods in target cluster''),
         emit EvList (emit EvNewForConfig s))"
    by (simp add: forFirstAvailableNode_def Let_def)
next
  assume "NewForConfig E (trace s) = None \<and>
       ListPods E (trace s @ [EvNewForConfig]) = Inr pods"
  then show "forFirstAvailableNode
        (E\<lparr>ListPods := (ListPods E)(trace s @ [EvNewForConfig] := Inr pods')\<rparr>) s ns =
      forFirstAvailableNode E s ns"
    using ffan_discards_listing by blast
next
  assume "ns \<noteq> []"
  then show "\<exists>evs. trace (snd (forFirstAvailableNode E s ns)) = trace s @ EvNewForConfig # evs \<and>
          (NewForConfig E (trace s) = None \<longrightarrow> (\<exists>evs'. evs = EvList # evs'))"
    by (rule ffan_starts)
next
  assume "(\<forall>h. NewForConfig E h = None) \<and> fst (forLeader_loop E s ns nodes errs) = Inl errs'"
  then show "length ns \<le>
      count_list (new_events s (snd (forLeader_loop E s ns nodes errs))) EvList"
    using fl_loop_lists by blast
qed


theorem C10_listing_repeated_and_discarded_witness:
  "m0 ''B'' = Some ''proxy-B''
   \<and> forFirstAvailableNode E5 s1 [''B''] =
       (Err (ErrWrap (ErrNew ''invalid configuration'')
          ''unable to create client to target cluster''),
        emit EvNewForConfig s1)
   \<and> forFirstAvailableNode E6 s1 [''B''] =
       (Err (ErrWrap (ErrNew ''connection refused'')
          ''unable to list etcd-proxy pods in target cluster''),
        emit EvList (emit EvNewForConfig s1))
   \<and> forFirstAvailableNode
        (E0\<lparr>ListPods := (ListPods E0)(trace s1 @ [EvNewForConfig] := Inr [])\<rparr>) s1 [''B''] =
      forFirstAvailableNode E0 s1 [''B'']
   \<and> length [''A'', ''B''] \<le>
       count_list
         (new_events s0 (snd (forLeader_loop E0 s0 [''A'', ''B''] (set [''A'', ''B'']) [])))
         EvList"
proof -
  let ?pods = "[\<lparr>pod_NodeName = ''B'', pod_Name = ''proxy-B''\<rparr>,
                \<lparr>pod_NodeName = ''C'', pod_Name = ''proxy-C''\<rparr>]"
  let ?errs = "[ErrAggregate
             [ErrWrap (ErrAggregate [ErrNew ''unable to find etcd proxy pod for node A''])
                ''could not establish a connection to any etcd node'',
              ErrEtcdNodeConnection],
           ErrAggregate [ErrNew ''context deadline exceeded'', ErrEtcdNodeConnection]]"
  have cached: "m0 ''B'' = Some ''proxy-B''"
    by (simp add: m0_def)
  have h1: "[''B''] \<noteq> [] \<and> NewForConfig E5 (trace s1) = Some (ErrNew ''invalid configuration'')"
    by (simp add: E5_def)
  from C10_listing_repeated_and_discarded [where ns = "[''B'']" and E = E5 and s = s1
      and e = "ErrNew ''invalid configuration''" and pods = "[]" and pods' = "[]"
      and nodes = "{}" and errs = "[]" and errs' = "[]"] h1
  have a: "forFirstAvailableNode E5 s1 [''B''] =
       (Err (ErrWrap (ErrNew ''invalid configuration'')
          ''unable to create client to target cluster''),
        emit EvNewForConfig s1)"
    by blast
  have h2: "[''B''] \<noteq> [] \<and> NewForConfig E6 (trace s1) = None \<and>
      ListPods E6 (trace s1 @ [EvNewForConfig]) = Inl (ErrNew ''connection refused'')"
    by (simp add: E6_def E0_def)
  from C10_listing_repeated_and_discarded [where ns = "[''B'']" and E = E6 and s = s1
      and e = "ErrNew ''connection refused''" and pods = "[]" and pods' = "[]"
      and nodes = "{}" and errs = "[]" and errs' = "[]"] h2
  have b: "forFirstAvailableNode E6 s1 [''B''] =
       (Err (ErrWrap (ErrNew ''connection refused'')
          ''unable to list etcd-proxy pods in target cluster''),
        emit EvList (emit EvNewForConfig s1))"
    by blast
  have h3: "NewForConfig E0 (trace s1) = None \<and>
      ListPods E0 (trace s1 @ [EvNewForConfig]) = Inr ?pods"
    by (simp add: E0_def)
  from C10_listing_repeated_and_discarded [where ns = "[''B'']" and E = E0 and s = s1
      and e = "ErrNew []" and pods = ?pods and pods' = "[]"
      and nodes = "{}" and errs = "[]" and errs' = "[]"] h3
  have c: "forFirstAvailableNode
        (E0\<lparr>ListPods := (ListPods E0)(trace s1 @ [EvNewForConfig] := Inr [])\<rparr>) s1 [''B''] =
      forFirstAvailableNode E0 s1 [''B'']"
    by blast
  have h4: "(\<forall>h. NewForConfig E0 h = None) \<and>
      fst (forLeader_loop E0 s0 [''A'', ''B''] (set [''A'', ''B'']) []) = Inl ?errs"
    by (simp only: run_fl_AB fst_conv) (simp add: E0_def)
  from C10_listing_repeated_and_discarded [where ns = "[''A'', ''B'']" and E = E0 and s = s0
      and e = "ErrNew []" and pods = "[]" and pods' = "[]"
      and nodes = "set [''A'', ''B'']" and errs = "[]" and errs' = ?errs] h4
  have d: "length [''A'', ''B''] \<le>
       count_list
         (new_events s0 (snd (forLeader_loop E0 s0 [''A'', ''B''] (set [''A'', ''B'']) [])))
         EvList"
    by blast
  from cached a b c d show ?thesis by blast
qed

end
